theory Spec2Isabelle
  imports Main
begin

section \<open>The SFTP session wrapper of fileshiftlib\<close>

text \<open>
  The class \<^verbatim>\<open>SFTP\<close> of \<^verbatim>\<open>fileshiftlib/fileshift.py\<close> owns a Paramiko transport and
  an SFTP client derived from it, and forwards every operation to them, logging first.
  Paramiko and the logger are not part of the repository: the library is a parameter of
  the model (a record of functions over a world of its own, each returning a value or
  raising), and the logger is a sink that records what it is given.

  Every call that leaves the class is written to a trace, in order, with its arguments and
  its outcome; the properties of the class are properties of that trace, of the value
  a method returns or the exception it raises, and of the fields of the object.
\<close>

subsection \<open>Values, handles and exceptions\<close>

text \<open>
  A raised exception is an instance of Python's \<^verbatim>\<open>Exception\<close>: its class name and
  the text \<^verbatim>\<open>str(e)\<close> gives. (The interpreter's own signals below \<^verbatim>\<open>BaseException\<close>
  only, such as \<^verbatim>\<open>KeyboardInterrupt\<close>, are not failures of a call and are not modelled.)
\<close>

datatype exn = Exn (exn_class: string) (exn_str: string)

text \<open>A value the source receives and drops: \<^verbatim>\<open>None\<close> or a reference to an object.\<close>

datatype pyval = PyNone | PyObj nat

datatype transport = TransportObj nat

datatype client = SFTPClientObj nat

datatype level = INFO | WARNING

subsection \<open>The trace\<close>

text \<open>
  \<open>Log\<close> is a message handed to the logger of that name. \<open>Unraisable\<close> is an exception the
  interpreter has discarded and reported (\<^verbatim>\<open>sys.unraisablehook\<close>). Every other event is a
  call of the library, with its arguments and with what it returned (\<open>Inr\<close>) or raised
  (\<open>Inl\<close>).
\<close>

datatype event =
    Log string level string
  | Ev_Transport string int "exn + transport"
  | Ev_connect transport string "string option" "exn + pyval"
  | Ev_from_transport transport "exn + client"
  | Ev_transport_close transport "exn + pyval"
  | Ev_client_close client "exn + pyval"
  | Ev_is_active transport "exn + bool"
  | Ev_listdir client string "exn + string list"
  | Ev_chdir client string "exn + pyval"
  | Ev_remove client string "exn + pyval"
  | Ev_get client string string "exn + pyval"
  | Ev_put client string string "exn + pyval"
  | Unraisable exn

subsection \<open>The library and the state outside the object\<close>

text \<open>
  The calls the source makes into Paramiko:
  \<^verbatim>\<open>paramiko.Transport((host, port))\<close>, \<^verbatim>\<open>transport.connect(username=, password=)\<close>,
  \<^verbatim>\<open>paramiko.SFTPClient.from_transport(transport)\<close>, \<^verbatim>\<open>transport.close()\<close>,
  \<^verbatim>\<open>transport.is_active()\<close>, and on the client \<^verbatim>\<open>close()\<close>, \<^verbatim>\<open>listdir(path)\<close>,
  \<^verbatim>\<open>chdir(path)\<close>, \<^verbatim>\<open>remove(filename)\<close>, \<^verbatim>\<open>get(remote, local)\<close> and
  \<^verbatim>\<open>put(local, remote)\<close>. Each may change the world \<open>'w\<close> and may raise.
\<close>

record 'w paramiko =
  transport_new :: "string \<Rightarrow> int \<Rightarrow> 'w \<Rightarrow> (exn + transport) \<times> 'w"
  transport_connect :: "transport \<Rightarrow> string \<Rightarrow> string option \<Rightarrow> 'w \<Rightarrow> (exn + pyval) \<times> 'w"
  sftp_from_transport :: "transport \<Rightarrow> 'w \<Rightarrow> (exn + client) \<times> 'w"
  transport_close :: "transport \<Rightarrow> 'w \<Rightarrow> (exn + pyval) \<times> 'w"
  transport_is_active :: "transport \<Rightarrow> 'w \<Rightarrow> (exn + bool) \<times> 'w"
  sftp_close :: "client \<Rightarrow> 'w \<Rightarrow> (exn + pyval) \<times> 'w"
  sftp_listdir :: "client \<Rightarrow> string \<Rightarrow> 'w \<Rightarrow> (exn + string list) \<times> 'w"
  sftp_chdir :: "client \<Rightarrow> string \<Rightarrow> 'w \<Rightarrow> (exn + pyval) \<times> 'w"
  sftp_remove :: "client \<Rightarrow> string \<Rightarrow> 'w \<Rightarrow> (exn + pyval) \<times> 'w"
  sftp_get :: "client \<Rightarrow> string \<Rightarrow> string \<Rightarrow> 'w \<Rightarrow> (exn + pyval) \<times> 'w"
  sftp_put :: "client \<Rightarrow> string \<Rightarrow> string \<Rightarrow> 'w \<Rightarrow> (exn + pyval) \<times> 'w"

record 'w sys =
  world :: 'w
  events :: "event list"

text \<open>
  \<^verbatim>\<open>logger.info(msg=...)\<close> and \<^verbatim>\<open>logger.warning(msg=...)\<close>: the message is recorded and
  the call returns. A \<^verbatim>\<open>logging.Logger\<close> does not raise into its caller, and the world of
  the library is not touched.
\<close>

definition log_msg :: "string \<Rightarrow> level \<Rightarrow> string \<Rightarrow> 'w sys \<Rightarrow> 'w sys" where
  "log_msg lg lv msg st = \<lparr>world = world st, events = events st @ [Log lg lv msg]\<rparr>"

text \<open>A call of the library: the world moves on and the call is recorded with its outcome.\<close>

definition invoke :: "((exn + 'a) \<Rightarrow> event) \<Rightarrow> ('w \<Rightarrow> (exn + 'a) \<times> 'w) \<Rightarrow> 'w sys \<Rightarrow> (exn + 'a) \<times> 'w sys" where
  "invoke ev f st =
     (case f (world st) of (r, w') \<Rightarrow> (r, \<lparr>world = w', events = events st @ [ev r]\<rparr>))"

subsection \<open>The object\<close>

text \<open>The dataclass \<^verbatim>\<open>SFTP.Configuration\<close>.\<close>

record configuration =
  host :: string
  port :: int
  username :: string
  password :: "string option"

text \<open>
  The attributes \<^verbatim>\<open>_logger\<close>, \<^verbatim>\<open>_configuration\<close>, \<^verbatim>\<open>_transport\<close> and \<^verbatim>\<open>sftp_client\<close>
  of an \<^verbatim>\<open>SFTP\<close> object (a leading underscore is written \<open>p_\<close>). A logger is known by its
  name.
\<close>

record session =
  p_logger :: string
  p_configuration :: configuration
  p_transport :: transport
  sftp_client :: client

text \<open>\<^verbatim>\<open>__name__\<close> of the module, the name of the logger used when none is supplied.\<close>

definition dunder_name :: string where
  "dunder_name = ''fileshiftlib.fileshift''"

text \<open>A parameter with a default value; \<open>None\<close> is the argument left out.\<close>

definition arg_or :: "'a \<Rightarrow> 'a option \<Rightarrow> 'a" where
  "arg_or d a = (case a of None \<Rightarrow> d | Some v \<Rightarrow> v)"

subsection \<open>The methods\<close>

text \<open>
  \<^verbatim>\<open>auth\<close> reads \<^verbatim>\<open>self._logger\<close> and \<^verbatim>\<open>self._configuration\<close> only (in \<^verbatim>\<open>__init__\<close> the
  two handle attributes do not exist yet), so these two are its arguments.
\<close>

definition auth :: "'w paramiko \<Rightarrow> string \<Rightarrow> configuration \<Rightarrow> 'w sys \<Rightarrow> (exn + transport \<times> client) \<times> 'w sys" where
  "auth lib lg cfg st =
     (case invoke (Ev_Transport (host cfg) (port cfg)) (transport_new lib (host cfg) (port cfg))
             (log_msg lg INFO ''Establishing a new SFTP session with the remote server.'' st) of
        (Inl e, st1) \<Rightarrow> (Inl e, st1)
      | (Inr t, st1) \<Rightarrow>
          (case invoke (Ev_connect t (username cfg) (password cfg))
                  (transport_connect lib t (username cfg) (password cfg)) st1 of
             (Inl e, st2) \<Rightarrow> (Inl e, st2)
           | (Inr _, st2) \<Rightarrow>
               (case invoke (Ev_from_transport t) (sftp_from_transport lib t) st2 of
                  (Inl e, st3) \<Rightarrow> (Inl e, st3)
                | (Inr c, st3) \<Rightarrow> (Inr (t, c), st3))))"

text \<open>
  \<^verbatim>\<open>__init__(host, username, password, port=22, logger=None)\<close>. When \<^verbatim>\<open>auth\<close> raises, the
  exception leaves \<^verbatim>\<open>__init__\<close> and the constructor call yields no object.
\<close>

definition SFTP_init :: "'w paramiko \<Rightarrow> string \<Rightarrow> string \<Rightarrow> string option \<Rightarrow> int option \<Rightarrow> string option \<Rightarrow> 'w sys \<Rightarrow> (exn + session) \<times> 'w sys" where
  "SFTP_init lib h u pw port_arg logger_arg st =
     (let lg = arg_or dunder_name logger_arg;
          cfg = \<lparr>host = h, port = arg_or 22 port_arg, username = u, password = pw\<rparr>
      in case auth lib lg cfg st of
           (Inl e, st') \<Rightarrow> (Inl e, st')
         | (Inr (t, c), st') \<Rightarrow>
             (Inr \<lparr>p_logger = lg, p_configuration = cfg, p_transport = t, sftp_client = c\<rparr>, st'))"

text \<open>\<^verbatim>\<open>__del__\<close>: no handler; the first close that raises ends the method.\<close>

definition SFTP_del :: "'w paramiko \<Rightarrow> session \<Rightarrow> 'w sys \<Rightarrow> (exn + unit) \<times> session \<times> 'w sys" where
  "SFTP_del lib s st =
     (case invoke (Ev_transport_close (p_transport s)) (transport_close lib (p_transport s))
             (log_msg (p_logger s) INFO ''Closing the SFTP session and releasing resources.'' st) of
        (Inl e, st1) \<Rightarrow> (Inl e, s, st1)
      | (Inr _, st1) \<Rightarrow>
          (case invoke (Ev_client_close (sftp_client s)) (sftp_close lib (sftp_client s)) st1 of
             (Inl e, st2) \<Rightarrow> (Inl e, s, st2)
           | (Inr _, st2) \<Rightarrow> (Inr (), s, st2)))"

text \<open>
  Final teardown. The class has no close method and is no context manager: the session is
  released when the object goes out of use and the interpreter runs \<^verbatim>\<open>__del__\<close> as its
  finalizer. That is Python's part, not the source's: an exception that leaves a finalizer
  is reported as unraisable and discarded, and the code that dropped the object goes on.
  (An explicit call \<^verbatim>\<open>obj.__del__()\<close> is \<open>SFTP_del\<close> itself.)
\<close>

definition finalize :: "'w paramiko \<Rightarrow> session \<Rightarrow> 'w sys \<Rightarrow> (exn + unit) \<times> 'w sys" where
  "finalize lib s st =
     (case SFTP_del lib s st of
        (Inl e, _, st') \<Rightarrow> (Inr (), \<lparr>world = world st', events = events st' @ [Unraisable e]\<rparr>)
      | (Inr _, _, st') \<Rightarrow> (Inr (), st'))"

text \<open>
  The \<^verbatim>\<open>try\<close> statement of \<^verbatim>\<open>reconnect\<close>: both closes are in its body, and the handler
  logs a warning with the text of the exception and goes on.
\<close>

definition close_existing :: "'w paramiko \<Rightarrow> session \<Rightarrow> 'w sys \<Rightarrow> 'w sys" where
  "close_existing lib s st =
     (case invoke (Ev_transport_close (p_transport s)) (transport_close lib (p_transport s)) st of
        (Inl e, st1) \<Rightarrow>
          log_msg (p_logger s) WARNING (''Error closing existing connection: '' @ exn_str e) st1
      | (Inr _, st1) \<Rightarrow>
          (case invoke (Ev_client_close (sftp_client s)) (sftp_close lib (sftp_client s)) st1 of
             (Inl e, st2) \<Rightarrow>
               log_msg (p_logger s) WARNING (''Error closing existing connection: '' @ exn_str e) st2
           | (Inr _, st2) \<Rightarrow> st2))"

text \<open>
  \<^verbatim>\<open>reconnect\<close>: the two attributes are assigned from the pair \<^verbatim>\<open>auth\<close> returns, so
  nothing is assigned when it raises.
\<close>

definition reconnect :: "'w paramiko \<Rightarrow> session \<Rightarrow> 'w sys \<Rightarrow> (exn + unit) \<times> session \<times> 'w sys" where
  "reconnect lib s st =
     (case auth lib (p_logger s) (p_configuration s)
             (close_existing lib s
               (log_msg (p_logger s) INFO
                 ''Establishing a secure connection and authenticating with the SFTP server.'' st)) of
        (Inl e, st') \<Rightarrow> (Inl e, s, st')
      | (Inr (t, c), st') \<Rightarrow> (Inr (), s\<lparr>p_transport := t, sftp_client := c\<rparr>, st'))"

definition is_connected :: "'w paramiko \<Rightarrow> session \<Rightarrow> 'w sys \<Rightarrow> (exn + bool) \<times> session \<times> 'w sys" where
  "is_connected lib s st =
     (case invoke (Ev_is_active (p_transport s)) (transport_is_active lib (p_transport s))
             (log_msg (p_logger s) INFO ''Checking if the SFTP connection is currently active.'' st) of
        (r, st') \<Rightarrow> (r, s, st'))"

text \<open>\<^verbatim>\<open>list_dir(path=".")\<close> returns what \<^verbatim>\<open>listdir\<close> returns.\<close>

definition list_dir :: "'w paramiko \<Rightarrow> session \<Rightarrow> string option \<Rightarrow> 'w sys \<Rightarrow> (exn + string list) \<times> session \<times> 'w sys" where
  "list_dir lib s path_arg st =
     (let path = arg_or ''.'' path_arg
      in case invoke (Ev_listdir (sftp_client s) path) (sftp_listdir lib (sftp_client s) path)
                (log_msg (p_logger s) INFO path
                  (log_msg (p_logger s) INFO
                    ''Listing the names of the contents in the specified folder on the SFTP server.'' st)) of
           (r, st') \<Rightarrow> (r, s, st'))"

text \<open>
  The four methods below have no \<^verbatim>\<open>return\<close> statement: when the call of the client
  returns, its value is dropped and the method returns \<^verbatim>\<open>None\<close>.
\<close>

definition change_dir :: "'w paramiko \<Rightarrow> session \<Rightarrow> string option \<Rightarrow> 'w sys \<Rightarrow> (exn + pyval) \<times> session \<times> 'w sys" where
  "change_dir lib s path_arg st =
     (let path = arg_or ''.'' path_arg
      in case invoke (Ev_chdir (sftp_client s) path) (sftp_chdir lib (sftp_client s) path)
                (log_msg (p_logger s) INFO path
                  (log_msg (p_logger s) INFO
                    ''Changing the current working directory on the SFTP server.'' st)) of
           (Inl e, st') \<Rightarrow> (Inl e, s, st')
         | (Inr _, st') \<Rightarrow> (Inr PyNone, s, st'))"

definition delete_file :: "'w paramiko \<Rightarrow> session \<Rightarrow> string \<Rightarrow> 'w sys \<Rightarrow> (exn + pyval) \<times> session \<times> 'w sys" where
  "delete_file lib s filename st =
     (case invoke (Ev_remove (sftp_client s) filename) (sftp_remove lib (sftp_client s) filename)
             (log_msg (p_logger s) INFO filename
               (log_msg (p_logger s) INFO ''Deleting a file from the SFTP server.'' st)) of
        (Inl e, st') \<Rightarrow> (Inl e, s, st')
      | (Inr _, st') \<Rightarrow> (Inr PyNone, s, st'))"

definition download_file :: "'w paramiko \<Rightarrow> session \<Rightarrow> string \<Rightarrow> string \<Rightarrow> 'w sys \<Rightarrow> (exn + pyval) \<times> session \<times> 'w sys" where
  "download_file lib s remote_path local_path st =
     (case invoke (Ev_get (sftp_client s) remote_path local_path)
             (sftp_get lib (sftp_client s) remote_path local_path)
             (log_msg (p_logger s) INFO local_path
               (log_msg (p_logger s) INFO remote_path
                 (log_msg (p_logger s) INFO
                   ''Downloading a file from the SFTP server to the local machine.'' st))) of
        (Inl e, st') \<Rightarrow> (Inl e, s, st')
      | (Inr _, st') \<Rightarrow> (Inr PyNone, s, st'))"

definition upload_file :: "'w paramiko \<Rightarrow> session \<Rightarrow> string \<Rightarrow> string \<Rightarrow> 'w sys \<Rightarrow> (exn + pyval) \<times> session \<times> 'w sys" where
  "upload_file lib s local_path remote_path st =
     (case invoke (Ev_put (sftp_client s) local_path remote_path)
             (sftp_put lib (sftp_client s) local_path remote_path)
             (log_msg (p_logger s) INFO remote_path
               (log_msg (p_logger s) INFO local_path
                 (log_msg (p_logger s) INFO
                   ''Uploading a file from the local machine to the SFTP server.'' st))) of
        (Inl e, st') \<Rightarrow> (Inl e, s, st')
      | (Inr _, st') \<Rightarrow> (Inr PyNone, s, st'))"

subsection \<open>A caller\<close>

text \<open>
  A caller holds the object and calls its public methods in any order; an exception a
  method raises is the caller's to handle, and the object is still there afterwards.
  \<open>Del\<close> is a run of \<^verbatim>\<open>__del__\<close>.
\<close>

datatype op =
    Auth
  | Reconnect
  | Is_connected
  | List_dir "string option"
  | Change_dir "string option"
  | Delete_file string
  | Download_file string string
  | Upload_file string string
  | Del

fun step :: "'w paramiko \<Rightarrow> op \<Rightarrow> session \<times> 'w sys \<Rightarrow> session \<times> 'w sys" where
  "step lib Auth (s, st) = (s, snd (auth lib (p_logger s) (p_configuration s) st))"
| "step lib Reconnect (s, st) = snd (reconnect lib s st)"
| "step lib Is_connected (s, st) = snd (is_connected lib s st)"
| "step lib (List_dir p) (s, st) = snd (list_dir lib s p st)"
| "step lib (Change_dir p) (s, st) = snd (change_dir lib s p st)"
| "step lib (Delete_file f) (s, st) = snd (delete_file lib s f st)"
| "step lib (Download_file r l) (s, st) = snd (download_file lib s r l st)"
| "step lib (Upload_file l r) (s, st) = snd (upload_file lib s l r st)"
| "step lib Del (s, st) = snd (SFTP_del lib s st)"

definition run :: "'w paramiko \<Rightarrow> op list \<Rightarrow> session \<times> 'w sys \<Rightarrow> session \<times> 'w sys" where
  "run lib ops c = fold (step lib) ops c"

subsection \<open>Reading the trace\<close>

text \<open>The events a method has added to the trace.\<close>

definition added :: "'w sys \<Rightarrow> 'w sys \<Rightarrow> event list" where
  "added st st' = drop (length (events st)) (events st')"

fun is_transport_close :: "event \<Rightarrow> bool" where
  "is_transport_close (Ev_transport_close _ _) = True"
| "is_transport_close _ = False"

fun is_client_close :: "event \<Rightarrow> bool" where
  "is_client_close (Ev_client_close _ _) = True"
| "is_client_close _ = False"

fun is_warning :: "event \<Rightarrow> bool" where
  "is_warning (Log _ WARNING _) = True"
| "is_warning _ = False"

text \<open>The exception a call of the library ended with, if it raised.\<close>

definition raised_of :: "exn + 'a \<Rightarrow> exn option" where
  "raised_of r = (case r of Inl e \<Rightarrow> Some e | Inr _ \<Rightarrow> None)"

fun raised :: "event \<Rightarrow> exn option" where
  "raised (Log _ _ _) = None"
| "raised (Ev_Transport _ _ r) = raised_of r"
| "raised (Ev_connect _ _ _ r) = raised_of r"
| "raised (Ev_from_transport _ r) = raised_of r"
| "raised (Ev_transport_close _ r) = raised_of r"
| "raised (Ev_client_close _ r) = raised_of r"
| "raised (Ev_is_active _ r) = raised_of r"
| "raised (Ev_listdir _ _ r) = raised_of r"
| "raised (Ev_chdir _ _ r) = raised_of r"
| "raised (Ev_remove _ _ r) = raised_of r"
| "raised (Ev_get _ _ _ r) = raised_of r"
| "raised (Ev_put _ _ _ r) = raised_of r"
| "raised (Unraisable _) = None"

text \<open>
  One successful run of \<^verbatim>\<open>auth\<close> for a configuration leaves three calls in a row: a
  transport \<open>t\<close> opened to its host and port, \<open>t\<close> connected with its credentials, and
  the client \<open>c\<close> derived from \<open>t\<close>.
\<close>

definition connect_ok :: "configuration \<Rightarrow> transport \<Rightarrow> event \<Rightarrow> bool" where
  "connect_ok cfg t e =
     (case e of
        Ev_connect t' u pw r \<Rightarrow> t' = t \<and> u = username cfg \<and> pw = password cfg \<and> raised_of r = None
      | _ \<Rightarrow> False)"

definition auth_run :: "configuration \<Rightarrow> transport \<Rightarrow> client \<Rightarrow> event \<Rightarrow> event \<Rightarrow> event \<Rightarrow> bool" where
  "auth_run cfg t c e1 e2 e3 =
     (e1 = Ev_Transport (host cfg) (port cfg) (Inr t) \<and> connect_ok cfg t e2
      \<and> e3 = Ev_from_transport t (Inr c))"

text \<open>The handles of the object come from one such run, somewhere in the trace.\<close>

fun paired_in :: "configuration \<Rightarrow> transport \<Rightarrow> client \<Rightarrow> event list \<Rightarrow> bool" where
  "paired_in cfg t c (e1 # e2 # e3 # evs) =
     (auth_run cfg t c e1 e2 e3 \<or> paired_in cfg t c (e2 # e3 # evs))"
| "paired_in cfg t c evs = False"

definition paired :: "session \<Rightarrow> event list \<Rightarrow> bool" where
  "paired s evs = paired_in (p_configuration s) (p_transport s) (sftp_client s) evs"

text \<open>The handles of the object come from the run the trace ends with.\<close>

definition fresh_pair :: "session \<Rightarrow> event list \<Rightarrow> bool" where
  "fresh_pair s evs =
     (case rev evs of
        e3 # e2 # e1 # _ \<Rightarrow> auth_run (p_configuration s) (p_transport s) (sftp_client s) e1 e2 e3
      | _ \<Rightarrow> False)"

text \<open>
  As many closes of a transport as closes of a client: within one method, which closes
  each at most once, both handles were closed or neither was.
\<close>

definition closed_together :: "event list \<Rightarrow> bool" where
  "closed_together evs =
     (length (filter is_transport_close evs) = length (filter is_client_close evs))"

subsection \<open>A scripted library\<close>

text \<open>
  A library for concrete runs: handles are numbered in the order they are made (the world
  is the next number), and one kind of call can be made to fail. \<^verbatim>\<open>put\<close> returns an
  object, as Paramiko's does (the attributes of the uploaded file).
\<close>

datatype fault =
    No_fault
  | Refuse_socket
  | Reject_login
  | No_channel
  | Transport_close_fails
  | Client_close_fails
  | Io_fails

definition scripted :: "fault \<Rightarrow> nat paramiko" where
  "scripted f =
     \<lparr>transport_new = (\<lambda>h p n.
        if f = Refuse_socket then (Inl (Exn ''SSHException'' ''Unable to connect''), n)
        else (Inr (TransportObj n), Suc n)),
      transport_connect = (\<lambda>t u pw n.
        if f = Reject_login then (Inl (Exn ''AuthenticationException'' ''Authentication failed.''), n)
        else (Inr PyNone, n)),
      sftp_from_transport = (\<lambda>t n.
        if f = No_channel then (Inl (Exn ''SSHException'' ''Channel closed.''), n)
        else (Inr (SFTPClientObj n), Suc n)),
      transport_close = (\<lambda>t n.
        if f = Transport_close_fails then (Inl (Exn ''OSError'' ''Socket is closed''), n)
        else (Inr PyNone, n)),
      transport_is_active = (\<lambda>t n. (Inr True, n)),
      sftp_close = (\<lambda>c n.
        if f = Client_close_fails then (Inl (Exn ''EOFError'' ''Stream closed''), n)
        else (Inr PyNone, n)),
      sftp_listdir = (\<lambda>c p n.
        if f = Io_fails then (Inl (Exn ''FileNotFoundError'' ''No such file''), n)
        else (Inr [''x.txt'', ''y.txt''], n)),
      sftp_chdir = (\<lambda>c p n.
        if f = Io_fails then (Inl (Exn ''FileNotFoundError'' ''No such file''), n)
        else (Inr PyNone, n)),
      sftp_remove = (\<lambda>c p n.
        if f = Io_fails then (Inl (Exn ''FileNotFoundError'' ''No such file''), n)
        else (Inr PyNone, n)),
      sftp_get = (\<lambda>c r l n.
        if f = Io_fails then (Inl (Exn ''FileNotFoundError'' ''No such file''), n)
        else (Inr PyNone, n)),
      sftp_put = (\<lambda>c l r n.
        if f = Io_fails then (Inl (Exn ''FileNotFoundError'' ''No such file''), n)
        else (Inr (PyObj 7), n))\<rparr>"

text \<open>An object as \<^verbatim>\<open>SFTP("sftp.example.org", "alice", "s3cret", logger=app)\<close> leaves it.\<close>

definition cfg0 :: configuration where
  "cfg0 = \<lparr>host = ''sftp.example.org'', port = 22, username = ''alice'', password = Some ''s3cret''\<rparr>"

definition s0 :: session where
  "s0 = \<lparr>p_logger = ''app'', p_configuration = cfg0,
          p_transport = TransportObj 0, sftp_client = SFTPClientObj 1\<rparr>"

definition st0 :: "nat sys" where
  "st0 = \<lparr>world = 2,
           events = [Log ''app'' INFO ''Establishing a new SFTP session with the remote server.'',
                     Ev_Transport ''sftp.example.org'' 22 (Inr (TransportObj 0)),
                     Ev_connect (TransportObj 0) ''alice'' (Some ''s3cret'') (Inr PyNone),
                     Ev_from_transport (TransportObj 0) (Inr (SFTPClientObj 1))]\<rparr>"

definition empty_sys :: "nat sys" where
  "empty_sys = \<lparr>world = 0, events = []\<rparr>"

section \<open>What each method does\<close>

subsection \<open>The runs of \<^verbatim>\<open>auth\<close>\<close>

lemma auth_socket_fails:
  assumes "transport_new lib (host cfg) (port cfg) (world st) = (Inl e, w1)"
  shows "auth lib lg cfg st =
    (Inl e, \<lparr>world = w1, events = events st @
       [Log lg INFO ''Establishing a new SFTP session with the remote server.'',
        Ev_Transport (host cfg) (port cfg) (Inl e)]\<rparr>)"
  using assms by (simp add: auth_def invoke_def log_msg_def)

lemma auth_login_fails:
  assumes "transport_new lib (host cfg) (port cfg) (world st) = (Inr t, w1)"
    and "transport_connect lib t (username cfg) (password cfg) w1 = (Inl e, w2)"
  shows "auth lib lg cfg st =
    (Inl e, \<lparr>world = w2, events = events st @
       [Log lg INFO ''Establishing a new SFTP session with the remote server.'',
        Ev_Transport (host cfg) (port cfg) (Inr t),
        Ev_connect t (username cfg) (password cfg) (Inl e)]\<rparr>)"
  using assms by (simp add: auth_def invoke_def log_msg_def)

lemma auth_client_fails:
  assumes "transport_new lib (host cfg) (port cfg) (world st) = (Inr t, w1)"
    and "transport_connect lib t (username cfg) (password cfg) w1 = (Inr v, w2)"
    and "sftp_from_transport lib t w2 = (Inl e, w3)"
  shows "auth lib lg cfg st =
    (Inl e, \<lparr>world = w3, events = events st @
       [Log lg INFO ''Establishing a new SFTP session with the remote server.'',
        Ev_Transport (host cfg) (port cfg) (Inr t),
        Ev_connect t (username cfg) (password cfg) (Inr v),
        Ev_from_transport t (Inl e)]\<rparr>)"
  using assms by (simp add: auth_def invoke_def log_msg_def)

lemma auth_succeeds:
  assumes "transport_new lib (host cfg) (port cfg) (world st) = (Inr t, w1)"
    and "transport_connect lib t (username cfg) (password cfg) w1 = (Inr v, w2)"
    and "sftp_from_transport lib t w2 = (Inr c, w3)"
  shows "auth lib lg cfg st =
    (Inr (t, c), \<lparr>world = w3, events = events st @
       [Log lg INFO ''Establishing a new SFTP session with the remote server.'',
        Ev_Transport (host cfg) (port cfg) (Inr t),
        Ev_connect t (username cfg) (password cfg) (Inr v),
        Ev_from_transport t (Inr c)]\<rparr>)"
  using assms by (simp add: auth_def invoke_def log_msg_def)

text \<open>A run of \<^verbatim>\<open>auth\<close> has one of four shapes.\<close>

lemma auth_shapes:
  obtains (socket) e w1 where "transport_new lib (host cfg) (port cfg) (world st) = (Inl e, w1)"
  | (login) t w1 e w2 where "transport_new lib (host cfg) (port cfg) (world st) = (Inr t, w1)"
      "transport_connect lib t (username cfg) (password cfg) w1 = (Inl e, w2)"
  | (channel) t w1 v w2 e w3 where "transport_new lib (host cfg) (port cfg) (world st) = (Inr t, w1)"
      "transport_connect lib t (username cfg) (password cfg) w1 = (Inr v, w2)"
      "sftp_from_transport lib t w2 = (Inl e, w3)"
  | (ok) t w1 v w2 c w3 where "transport_new lib (host cfg) (port cfg) (world st) = (Inr t, w1)"
      "transport_connect lib t (username cfg) (password cfg) w1 = (Inr v, w2)"
      "sftp_from_transport lib t w2 = (Inr c, w3)"
proof -
  obtain r1 w1 where a: "transport_new lib (host cfg) (port cfg) (world st) = (r1, w1)"
    by (cases "transport_new lib (host cfg) (port cfg) (world st)")
  show thesis
  proof (cases r1)
    case (Inl e)
    with a socket show thesis by simp
  next
    case (Inr t)
    obtain r2 w2 where b: "transport_connect lib t (username cfg) (password cfg) w1 = (r2, w2)"
      by (cases "transport_connect lib t (username cfg) (password cfg) w1")
    show thesis
    proof (cases r2)
      case (Inl e)
      with a b Inr login show thesis by simp
    next
      case v: (Inr v)
      obtain r3 w3 where c: "sftp_from_transport lib t w2 = (r3, w3)"
        by (cases "sftp_from_transport lib t w2")
      show thesis
      proof (cases r3)
        case (Inl e)
        with a b c Inr v channel show thesis by simp
      next
        case c': (Inr c')
        with a b c Inr v ok show thesis by simp
      qed
    qed
  qed
qed

text \<open>\<^verbatim>\<open>auth\<close> only adds to the trace, and adds no close and no warning.\<close>

lemma auth_events:
  "\<exists>ys. events (snd (auth lib lg cfg st)) = events st @ ys
     \<and> filter is_transport_close ys = [] \<and> filter is_client_close ys = []
     \<and> filter is_warning ys = []"
proof (cases rule: auth_shapes [of lib cfg st])
  case socket
  from auth_socket_fails [OF socket(1)] show ?thesis by simp
next
  case login
  from auth_login_fails [OF login] show ?thesis by simp
next
  case channel
  from auth_client_fails [OF channel] show ?thesis by simp
next
  case ok
  from auth_succeeds [OF ok] show ?thesis by simp
qed

lemma auth_raises_last:
  assumes "fst (auth lib lg cfg st) = Inl e"
  shows "events (snd (auth lib lg cfg st)) \<noteq> [] \<and> raised (last (events (snd (auth lib lg cfg st)))) = Some e"
proof (cases rule: auth_shapes [of lib cfg st])
  case socket
  from auth_socket_fails [OF socket(1), of lg] assms show ?thesis by (simp add: raised_of_def)
next
  case login
  from auth_login_fails [OF login, of lg] assms show ?thesis by (simp add: raised_of_def)
next
  case channel
  from auth_client_fails [OF channel, of lg] assms show ?thesis by (simp add: raised_of_def)
next
  case ok
  from auth_succeeds [OF ok, of lg] assms show ?thesis by simp
qed

subsection \<open>The \<^verbatim>\<open>try\<close> statement of \<^verbatim>\<open>reconnect\<close>\<close>

lemma close_existing_transport_fails:
  assumes "transport_close lib (p_transport s) (world st) = (Inl e, w1)"
  shows "close_existing lib s st =
    \<lparr>world = w1, events = events st @
       [Ev_transport_close (p_transport s) (Inl e),
        Log (p_logger s) WARNING (''Error closing existing connection: '' @ exn_str e)]\<rparr>"
  using assms by (simp add: close_existing_def invoke_def log_msg_def)

lemma close_existing_client_fails:
  assumes "transport_close lib (p_transport s) (world st) = (Inr v, w1)"
    and "sftp_close lib (sftp_client s) w1 = (Inl e, w2)"
  shows "close_existing lib s st =
    \<lparr>world = w2, events = events st @
       [Ev_transport_close (p_transport s) (Inr v),
        Ev_client_close (sftp_client s) (Inl e),
        Log (p_logger s) WARNING (''Error closing existing connection: '' @ exn_str e)]\<rparr>"
  using assms by (simp add: close_existing_def invoke_def log_msg_def)

lemma close_existing_both_close:
  assumes "transport_close lib (p_transport s) (world st) = (Inr v, w1)"
    and "sftp_close lib (sftp_client s) w1 = (Inr v', w2)"
  shows "close_existing lib s st =
    \<lparr>world = w2, events = events st @
       [Ev_transport_close (p_transport s) (Inr v),
        Ev_client_close (sftp_client s) (Inr v')]\<rparr>"
  using assms by (simp add: close_existing_def invoke_def log_msg_def)

lemma close_shapes:
  obtains (transport) e w1 where "transport_close lib t w = (Inl e, w1)"
  | (client) v w1 e w2 where "transport_close lib t w = (Inr v, w1)" "sftp_close lib c w1 = (Inl e, w2)"
  | (both) v w1 v' w2 where "transport_close lib t w = (Inr v, w1)" "sftp_close lib c w1 = (Inr v', w2)"
proof -
  obtain r1 w1 where a: "transport_close lib t w = (r1, w1)"
    by (cases "transport_close lib t w")
  obtain r2 w2 where b: "sftp_close lib c w1 = (r2, w2)"
    by (cases "sftp_close lib c w1")
  show thesis
  proof (cases r1)
    case (Inl e)
    with a transport show thesis by simp
  next
    case v: (Inr v)
    show thesis
    proof (cases r2)
      case (Inl e)
      with a b v client show thesis by simp
    next
      case (Inr v')
      with a b v both show thesis by simp
    qed
  qed
qed

lemma reconnect_result:
  "fst (reconnect lib s st) =
     map_sum id (\<lambda>_. ())
       (fst (auth lib (p_logger s) (p_configuration s)
               (close_existing lib s
                 (log_msg (p_logger s) INFO
                   ''Establishing a secure connection and authenticating with the SFTP server.'' st))))"
  by (simp add: reconnect_def split: prod.splits sum.splits)

lemma reconnect_state:
  "snd (snd (reconnect lib s st)) =
     snd (auth lib (p_logger s) (p_configuration s)
            (close_existing lib s
              (log_msg (p_logger s) INFO
                ''Establishing a secure connection and authenticating with the SFTP server.'' st)))"
  by (simp add: reconnect_def split: prod.splits sum.splits)

lemma reconnect_session:
  "fst (snd (reconnect lib s st)) =
     (case fst (auth lib (p_logger s) (p_configuration s)
               (close_existing lib s
                 (log_msg (p_logger s) INFO
                   ''Establishing a secure connection and authenticating with the SFTP server.'' st))) of
        Inl e \<Rightarrow> s
      | Inr (t, c) \<Rightarrow> s\<lparr>p_transport := t, sftp_client := c\<rparr>)"
  by (simp add: reconnect_def split: prod.splits sum.splits)

lemma added_append [simp]: "events st' = events st @ ys \<Longrightarrow> added st st' = ys"
  by (simp add: added_def)

text \<open>The trace of a \<^verbatim>\<open>reconnect\<close>: the info message, the closes, then the run of \<^verbatim>\<open>auth\<close>.\<close>

lemma close_existing_events:
  "\<exists>xs. events (close_existing lib s st) = events st @ xs"
  by (cases rule: close_shapes [where lib = lib and t = "p_transport s" and w = "world st" and c = "sftp_client s"])
     (simp_all add: close_existing_transport_fails close_existing_client_fails
        close_existing_both_close)

lemma reconnect_events_transport_fails:
  assumes "transport_close lib (p_transport s) (world st) = (Inl e, w1)"
  shows "\<exists>ys. events (snd (snd (reconnect lib s st))) = events st @
       [Log (p_logger s) INFO
          ''Establishing a secure connection and authenticating with the SFTP server.'',
        Ev_transport_close (p_transport s) (Inl e),
        Log (p_logger s) WARNING (''Error closing existing connection: '' @ exn_str e)] @ ys
     \<and> filter is_transport_close ys = [] \<and> filter is_client_close ys = []
     \<and> filter is_warning ys = []"
proof -
  let ?st1 = "log_msg (p_logger s) INFO
     ''Establishing a secure connection and authenticating with the SFTP server.'' st"
  have "transport_close lib (p_transport s) (world ?st1) = (Inl e, w1)"
    using assms by (simp add: log_msg_def)
  from close_existing_transport_fails [OF this]
  have c: "events (close_existing lib s ?st1) = events st @
       [Log (p_logger s) INFO
          ''Establishing a secure connection and authenticating with the SFTP server.'',
        Ev_transport_close (p_transport s) (Inl e),
        Log (p_logger s) WARNING (''Error closing existing connection: '' @ exn_str e)]"
    by (simp add: log_msg_def)
  from auth_events [of lib "p_logger s" "p_configuration s" "close_existing lib s ?st1"]
  show ?thesis by (simp add: reconnect_state c)
qed

lemma reconnect_events_transport_closes:
  assumes "transport_close lib (p_transport s) (world st) = (Inr v, w1)"
    and "sftp_close lib (sftp_client s) w1 = (r, w2)"
  shows "\<exists>ys. events (snd (snd (reconnect lib s st))) = events st @
       [Log (p_logger s) INFO
          ''Establishing a secure connection and authenticating with the SFTP server.'',
        Ev_transport_close (p_transport s) (Inr v),
        Ev_client_close (sftp_client s) r] @ ys
     \<and> filter is_transport_close ys = [] \<and> filter is_client_close ys = []"
proof -
  let ?st1 = "log_msg (p_logger s) INFO
     ''Establishing a secure connection and authenticating with the SFTP server.'' st"
  have t: "transport_close lib (p_transport s) (world ?st1) = (Inr v, w1)"
    using assms by (simp add: log_msg_def)
  have "\<exists>xs. events (close_existing lib s ?st1) = events st @
       [Log (p_logger s) INFO
          ''Establishing a secure connection and authenticating with the SFTP server.'',
        Ev_transport_close (p_transport s) (Inr v),
        Ev_client_close (sftp_client s) r] @ xs
      \<and> filter is_transport_close xs = [] \<and> filter is_client_close xs = []"
  proof (cases r)
    case (Inl e)
    with assms(2) close_existing_client_fails [OF t, where e = e and ?w2.0 = w2] show ?thesis
      by (simp add: log_msg_def)
  next
    case (Inr v')
    with assms(2) close_existing_both_close [OF t, where v' = v' and ?w2.0 = w2] show ?thesis
      by (simp add: log_msg_def)
  qed
  then obtain xs where c: "events (close_existing lib s ?st1) = events st @
       [Log (p_logger s) INFO
          ''Establishing a secure connection and authenticating with the SFTP server.'',
        Ev_transport_close (p_transport s) (Inr v),
        Ev_client_close (sftp_client s) r] @ xs"
    and f: "filter is_transport_close xs = []" "filter is_client_close xs = []"
    by blast
  from auth_events [of lib "p_logger s" "p_configuration s" "close_existing lib s ?st1"]
  obtain ys where "events (snd (auth lib (p_logger s) (p_configuration s) (close_existing lib s ?st1)))
       = events (close_existing lib s ?st1) @ ys"
    and "filter is_transport_close ys = []" "filter is_client_close ys = []"
    by blast
  with c f show ?thesis
    by (intro exI [of _ "xs @ ys"]) (simp add: reconnect_state)
qed

subsection \<open>The object under a caller\<close>

text \<open>Only \<^verbatim>\<open>reconnect\<close> assigns to the object, and every method only adds to the trace.\<close>

lemma step_session:
  "fst (step lib x (s, st)) = (if x = Reconnect then fst (snd (reconnect lib s st)) else s)"
  by (cases x)
     (simp_all add: is_connected_def list_dir_def change_dir_def delete_file_def
        download_file_def upload_file_def SFTP_del_def Let_def split: prod.splits sum.splits)

lemma reconnect_configuration:
  "p_configuration (fst (snd (reconnect lib s st))) = p_configuration s"
  by (simp add: reconnect_session split: sum.splits)

lemma step_configuration:
  "p_configuration (fst (step lib x c)) = p_configuration (fst c)"
  by (cases c) (simp add: step_session reconnect_configuration)

lemma run_configuration:
  "p_configuration (fst (run lib ops c)) = p_configuration (fst c)"
  unfolding run_def
  by (induction ops arbitrary: c) (simp_all add: step_configuration)

lemma reconnect_events:
  "\<exists>ys. events (snd (snd (reconnect lib s st))) = events st @ ys"
proof -
  obtain r1 w1 where t: "transport_close lib (p_transport s) (world st) = (r1, w1)"
    by (cases "transport_close lib (p_transport s) (world st)")
  show ?thesis
  proof (cases r1)
    case (Inl e1)
    with t reconnect_events_transport_fails [of lib s st e1 w1] show ?thesis by auto
  next
    case (Inr v)
    obtain r2 w2 where "sftp_close lib (sftp_client s) w1 = (r2, w2)"
      by (cases "sftp_close lib (sftp_client s) w1")
    with Inr t reconnect_events_transport_closes [of lib s st v w1 r2 w2] show ?thesis by auto
  qed
qed

lemma step_events:
  "\<exists>ys. events (snd (step lib x (s, st))) = events st @ ys"
proof (cases x)
  case Auth
  with auth_events [of lib "p_logger s" "p_configuration s" st] show ?thesis by auto
next
  case Reconnect
  with reconnect_events [of lib s st] show ?thesis by simp
qed (simp_all add: is_connected_def list_dir_def change_dir_def delete_file_def
        download_file_def upload_file_def SFTP_del_def invoke_def log_msg_def Let_def
        split: prod.splits sum.splits)

subsection \<open>Pairs of handles\<close>

lemma paired_in_append: "paired_in cfg t c xs \<Longrightarrow> paired_in cfg t c (xs @ ys)"
  by (induction cfg t c xs rule: paired_in.induct) auto

lemma paired_in_Cons: "paired_in cfg t c xs \<Longrightarrow> paired_in cfg t c (x # xs)"
  by (cases "(cfg, t, c, xs)" rule: paired_in.cases) auto

lemma paired_in_prepend: "paired_in cfg t c xs \<Longrightarrow> paired_in cfg t c (ys @ xs)"
  by (induction ys) (auto intro: paired_in_Cons)

lemma fresh_pair_paired:
  assumes "fresh_pair s evs"
  shows "paired s evs"
proof -
  from assms obtain e3 e2 e1 rest where r: "rev evs = e3 # e2 # e1 # rest"
    and a: "auth_run (p_configuration s) (p_transport s) (sftp_client s) e1 e2 e3"
    by (auto simp: fresh_pair_def split: list.splits)
  from r have "evs = rev rest @ [e1, e2, e3]"
    by (simp add: rev_swap)
  moreover from a have "paired_in (p_configuration s) (p_transport s) (sftp_client s) [e1, e2, e3]"
    by simp
  ultimately show ?thesis
    by (simp add: paired_def paired_in_prepend del: paired_in.simps)
qed

lemma auth_fresh:
  assumes "fst (auth lib lg cfg st) = Inr (t, c)"
  shows "fresh_pair (s\<lparr>p_configuration := cfg, p_transport := t, sftp_client := c\<rparr>)
           (events (snd (auth lib lg cfg st)))"
proof (cases rule: auth_shapes [where lib = lib and cfg = cfg and st = st])
  case socket
  from auth_socket_fails [OF socket(1), of lg] assms show ?thesis by simp
next
  case login
  from auth_login_fails [OF login, of lg] assms show ?thesis by simp
next
  case channel
  from auth_client_fails [OF channel, of lg] assms show ?thesis by simp
next
  case ok
  from auth_succeeds [OF ok, of lg] assms show ?thesis
    by (simp add: fresh_pair_def auth_run_def connect_ok_def raised_of_def)
qed

lemma reconnect_fresh:
  assumes "fst (auth lib (p_logger s) (p_configuration s)
             (close_existing lib s
               (log_msg (p_logger s) INFO
                 ''Establishing a secure connection and authenticating with the SFTP server.'' st)))
           = Inr (t, c)"
  shows "fst (reconnect lib s st) = Inr ()"
    and "fst (snd (reconnect lib s st)) = s\<lparr>p_transport := t, sftp_client := c\<rparr>"
    and "fresh_pair (fst (snd (reconnect lib s st))) (events (snd (snd (reconnect lib s st))))"
proof -
  show "fst (reconnect lib s st) = Inr ()"
    using assms by (simp add: reconnect_result)
  show e: "fst (snd (reconnect lib s st)) = s\<lparr>p_transport := t, sftp_client := c\<rparr>"
    using assms by (simp add: reconnect_session)
  from auth_fresh [OF assms, of s]
  show "fresh_pair (fst (snd (reconnect lib s st))) (events (snd (snd (reconnect lib s st))))"
    by (simp add: e reconnect_state)
qed

lemma init_fresh:
  assumes "SFTP_init lib h u pw port_arg logger_arg st = (Inr s, st')"
  shows "fresh_pair s (events st')"
proof -
  let ?lg = "arg_or dunder_name logger_arg"
  let ?cfg = "\<lparr>host = h, port = arg_or 22 port_arg, username = u, password = pw\<rparr>"
  obtain r st1 where a: "auth lib ?lg ?cfg st = (r, st1)"
    by (cases "auth lib ?lg ?cfg st")
  with assms obtain t c where r: "r = Inr (t, c)" and s: "st' = st1"
    "s = \<lparr>p_logger = ?lg, p_configuration = ?cfg, p_transport = t, sftp_client = c\<rparr>"
    by (auto simp: SFTP_init_def Let_def split: sum.splits)
  from a r have "fst (auth lib ?lg ?cfg st) = Inr (t, c)" by simp
  from auth_fresh [OF this, of s] a s show ?thesis by simp
qed

lemma step_paired:
  assumes "paired s (events st)"
  shows "paired (fst (step lib x (s, st))) (events (snd (step lib x (s, st))))"
proof -
  obtain ys where ev: "events (snd (step lib x (s, st))) = events st @ ys"
    using step_events by blast
  show ?thesis
  proof (cases "fst (step lib x (s, st)) = s")
    case True
    with assms ev show ?thesis by (simp add: paired_def paired_in_append)
  next
    case False
    then have x: "x = Reconnect" and n: "fst (snd (reconnect lib s st)) \<noteq> s"
      by (simp_all add: step_session split: if_splits)
    let ?a = "fst (auth lib (p_logger s) (p_configuration s)
             (close_existing lib s
               (log_msg (p_logger s) INFO
                 ''Establishing a secure connection and authenticating with the SFTP server.'' st)))"
    from n obtain t c where "?a = Inr (t, c)"
      by (cases ?a) (auto simp: reconnect_session)
    from reconnect_fresh(3) [OF this] x show ?thesis
      by (simp add: fresh_pair_paired)
  qed
qed

lemma run_paired:
  "paired (fst c) (events (snd c)) \<Longrightarrow>
   paired (fst (run lib ops c)) (events (snd (run lib ops c)))"
  unfolding run_def
proof (induction ops arbitrary: c)
  case Nil
  then show ?case by simp
next
  case (Cons x ops)
  from step_paired [of "fst c" "snd c" lib x] Cons.prems
  have "paired (fst (step lib x c)) (events (snd (step lib x c)))" by simp
  from Cons.IH [OF this] show ?case by simp
qed

section \<open>The claims\<close>

text \<open>
  C5. \<^verbatim>\<open>auth\<close> logs the start of the session at info level, opens a transport to the
  configured host and port, connects it with the configured username and password, derives
  the client from that same transport and returns the pair, in this order and each at
  most once: a call that raises ends the run with its exception, and nothing is tried
  again. Construction and \<^verbatim>\<open>reconnect\<close> both go through this one routine: the state
  each of them leaves is the state its run of \<^verbatim>\<open>auth\<close> leaves.
\<close>

theorem auth_steps_in_order:
  "(transport_new lib (host cfg) (port cfg) (world st) = (Inl e, w1) \<longrightarrow>
      auth lib lg cfg st =
        (Inl e, \<lparr>world = w1, events = events st @
           [Log lg INFO ''Establishing a new SFTP session with the remote server.'',
            Ev_Transport (host cfg) (port cfg) (Inl e)]\<rparr>))
   \<and> (transport_new lib (host cfg) (port cfg) (world st) = (Inr t, w1)
        \<and> transport_connect lib t (username cfg) (password cfg) w1 = (Inl e, w2) \<longrightarrow>
      auth lib lg cfg st =
        (Inl e, \<lparr>world = w2, events = events st @
           [Log lg INFO ''Establishing a new SFTP session with the remote server.'',
            Ev_Transport (host cfg) (port cfg) (Inr t),
            Ev_connect t (username cfg) (password cfg) (Inl e)]\<rparr>))
   \<and> (transport_new lib (host cfg) (port cfg) (world st) = (Inr t, w1)
        \<and> transport_connect lib t (username cfg) (password cfg) w1 = (Inr v, w2)
        \<and> sftp_from_transport lib t w2 = (Inl e, w3) \<longrightarrow>
      auth lib lg cfg st =
        (Inl e, \<lparr>world = w3, events = events st @
           [Log lg INFO ''Establishing a new SFTP session with the remote server.'',
            Ev_Transport (host cfg) (port cfg) (Inr t),
            Ev_connect t (username cfg) (password cfg) (Inr v),
            Ev_from_transport t (Inl e)]\<rparr>))
   \<and> (transport_new lib (host cfg) (port cfg) (world st) = (Inr t, w1)
        \<and> transport_connect lib t (username cfg) (password cfg) w1 = (Inr v, w2)
        \<and> sftp_from_transport lib t w2 = (Inr c, w3) \<longrightarrow>
      auth lib lg cfg st =
        (Inr (t, c), \<lparr>world = w3, events = events st @
           [Log lg INFO ''Establishing a new SFTP session with the remote server.'',
            Ev_Transport (host cfg) (port cfg) (Inr t),
            Ev_connect t (username cfg) (password cfg) (Inr v),
            Ev_from_transport t (Inr c)]\<rparr>))
   \<and> snd (SFTP_init lib h u pw port_arg logger_arg st) =
       snd (auth lib (arg_or dunder_name logger_arg)
              \<lparr>host = h, port = arg_or 22 port_arg, username = u, password = pw\<rparr> st)
   \<and> snd (snd (reconnect lib s st)) =
       snd (auth lib (p_logger s) (p_configuration s)
              (close_existing lib s
                (log_msg (p_logger s) INFO
                  ''Establishing a secure connection and authenticating with the SFTP server.'' st)))"
proof (intro conjI impI)
  show "snd (SFTP_init lib h u pw port_arg logger_arg st) =
       snd (auth lib (arg_or dunder_name logger_arg)
              \<lparr>host = h, port = arg_or 22 port_arg, username = u, password = pw\<rparr> st)"
    by (simp add: SFTP_init_def Let_def split: prod.splits sum.splits)
qed (simp_all add: auth_socket_fails auth_login_fails auth_client_fails auth_succeeds reconnect_state)

theorem auth_steps_in_order_witness:
  "auth (scripted Refuse_socket) ''app'' cfg0 empty_sys =
     (Inl (Exn ''SSHException'' ''Unable to connect''),
      \<lparr>world = 0, events =
         [Log ''app'' INFO ''Establishing a new SFTP session with the remote server.'',
          Ev_Transport ''sftp.example.org'' 22 (Inl (Exn ''SSHException'' ''Unable to connect''))]\<rparr>)
   \<and> auth (scripted Reject_login) ''app'' cfg0 empty_sys =
     (Inl (Exn ''AuthenticationException'' ''Authentication failed.''),
      \<lparr>world = 1, events =
         [Log ''app'' INFO ''Establishing a new SFTP session with the remote server.'',
          Ev_Transport ''sftp.example.org'' 22 (Inr (TransportObj 0)),
          Ev_connect (TransportObj 0) ''alice'' (Some ''s3cret'')
            (Inl (Exn ''AuthenticationException'' ''Authentication failed.''))]\<rparr>)
   \<and> auth (scripted No_channel) ''app'' cfg0 empty_sys =
     (Inl (Exn ''SSHException'' ''Channel closed.''),
      \<lparr>world = 1, events =
         [Log ''app'' INFO ''Establishing a new SFTP session with the remote server.'',
          Ev_Transport ''sftp.example.org'' 22 (Inr (TransportObj 0)),
          Ev_connect (TransportObj 0) ''alice'' (Some ''s3cret'') (Inr PyNone),
          Ev_from_transport (TransportObj 0) (Inl (Exn ''SSHException'' ''Channel closed.''))]\<rparr>)
   \<and> auth (scripted No_fault) ''app'' cfg0 empty_sys = (Inr (TransportObj 0, SFTPClientObj 1), st0)"
proof -
  note inst = auth_steps_in_order [where st = empty_sys and cfg = cfg0 and lg = "''app''"
      and s = s0 and h = "''h''" and u = "''u''" and pw = None and port_arg = None and logger_arg = None]
  have a: "auth (scripted Refuse_socket) ''app'' cfg0 empty_sys =
     (Inl (Exn ''SSHException'' ''Unable to connect''),
      \<lparr>world = 0, events =
         [Log ''app'' INFO ''Establishing a new SFTP session with the remote server.'',
          Ev_Transport ''sftp.example.org'' 22 (Inl (Exn ''SSHException'' ''Unable to connect''))]\<rparr>)"
    using inst [where lib = "scripted Refuse_socket" and e = "Exn ''SSHException'' ''Unable to connect''"
        and ?w1.0 = 0]
    by (simp add: scripted_def cfg0_def empty_sys_def)
  have b: "auth (scripted Reject_login) ''app'' cfg0 empty_sys =
     (Inl (Exn ''AuthenticationException'' ''Authentication failed.''),
      \<lparr>world = 1, events =
         [Log ''app'' INFO ''Establishing a new SFTP session with the remote server.'',
          Ev_Transport ''sftp.example.org'' 22 (Inr (TransportObj 0)),
          Ev_connect (TransportObj 0) ''alice'' (Some ''s3cret'')
            (Inl (Exn ''AuthenticationException'' ''Authentication failed.''))]\<rparr>)"
    using inst [where lib = "scripted Reject_login"
        and e = "Exn ''AuthenticationException'' ''Authentication failed.''"
        and t = "TransportObj 0" and ?w1.0 = 1 and ?w2.0 = 1]
    by (simp add: scripted_def cfg0_def empty_sys_def)
  have c: "auth (scripted No_channel) ''app'' cfg0 empty_sys =
     (Inl (Exn ''SSHException'' ''Channel closed.''),
      \<lparr>world = 1, events =
         [Log ''app'' INFO ''Establishing a new SFTP session with the remote server.'',
          Ev_Transport ''sftp.example.org'' 22 (Inr (TransportObj 0)),
          Ev_connect (TransportObj 0) ''alice'' (Some ''s3cret'') (Inr PyNone),
          Ev_from_transport (TransportObj 0) (Inl (Exn ''SSHException'' ''Channel closed.''))]\<rparr>)"
    using inst [where lib = "scripted No_channel" and e = "Exn ''SSHException'' ''Channel closed.''"
        and t = "TransportObj 0" and v = PyNone and ?w1.0 = 1 and ?w2.0 = 1 and ?w3.0 = 1]
    by (simp add: scripted_def cfg0_def empty_sys_def)
  have d: "auth (scripted No_fault) ''app'' cfg0 empty_sys = (Inr (TransportObj 0, SFTPClientObj 1), st0)"
    using inst [where lib = "scripted No_fault" and t = "TransportObj 0" and v = PyNone
        and c = "SFTPClientObj 1" and ?w1.0 = 1 and ?w2.0 = 1 and ?w3.0 = 2]
    by (simp add: scripted_def cfg0_def empty_sys_def st0_def)
  from a b c d show ?thesis by simp
qed

text \<open>
  C2. When \<^verbatim>\<open>auth\<close> raises during construction, whatever call of the library it was
  that failed, \<^verbatim>\<open>__init__\<close> raises that same exception, the one the library raised in
  the last call on the trace, and the constructor yields no object.
\<close>

theorem construction_fails_with_auth:
  assumes "fst (auth lib (arg_or dunder_name logger_arg)
                  \<lparr>host = h, port = arg_or 22 port_arg, username = u, password = pw\<rparr> st) = Inl e"
  shows "fst (SFTP_init lib h u pw port_arg logger_arg st) = Inl e
     \<and> events (snd (SFTP_init lib h u pw port_arg logger_arg st)) \<noteq> []
     \<and> raised (last (events (snd (SFTP_init lib h u pw port_arg logger_arg st)))) = Some e"
proof -
  let ?a = "auth lib (arg_or dunder_name logger_arg)
              \<lparr>host = h, port = arg_or 22 port_arg, username = u, password = pw\<rparr> st"
  have "SFTP_init lib h u pw port_arg logger_arg st = (Inl e, snd ?a)"
    using assms by (cases ?a) (auto simp: SFTP_init_def Let_def)
  with auth_raises_last [OF assms] show ?thesis by simp
qed

theorem construction_fails_with_auth_witness:
  "fst (auth (scripted Reject_login) (arg_or dunder_name None)
          \<lparr>host = ''sftp.example.org'', port = arg_or 22 None, username = ''alice'',
             password = Some ''wrong''\<rparr> empty_sys)
     = Inl (Exn ''AuthenticationException'' ''Authentication failed.'')
   \<and> fst (SFTP_init (scripted Reject_login) ''sftp.example.org'' ''alice'' (Some ''wrong'') None None
            empty_sys)
     = Inl (Exn ''AuthenticationException'' ''Authentication failed.'')
   \<and> raised (last (events (snd (SFTP_init (scripted Reject_login) ''sftp.example.org'' ''alice''
                                   (Some ''wrong'') None None empty_sys))))
     = Some (Exn ''AuthenticationException'' ''Authentication failed.'')"
proof -
  have h: "fst (auth (scripted Reject_login) (arg_or dunder_name None)
          \<lparr>host = ''sftp.example.org'', port = arg_or 22 None, username = ''alice'',
             password = Some ''wrong''\<rparr> empty_sys)
     = Inl (Exn ''AuthenticationException'' ''Authentication failed.'')"
    by (simp add: auth_def invoke_def log_msg_def scripted_def empty_sys_def)
  from h construction_fails_with_auth [OF h] show ?thesis by simp
qed

text \<open>
  C1. \<^verbatim>\<open>reconnect\<close> raises \<open>e\<close> exactly when its run of \<^verbatim>\<open>auth\<close> raises \<open>e\<close>. An exception
  from closing the transport, or from closing the client, is caught by \<^verbatim>\<open>reconnect\<close>: its
  trace goes on with a warning that carries the text of the exception, and then with the
  run of \<^verbatim>\<open>auth\<close>, whose outcome is the outcome of \<^verbatim>\<open>reconnect\<close>. So is it when both
  closes return, without the warning.
\<close>

theorem reconnect_raises_iff_auth_raises:
  "(fst (reconnect lib s st) = Inl e \<longleftrightarrow>
      fst (auth lib (p_logger s) (p_configuration s)
             (close_existing lib s
               (log_msg (p_logger s) INFO
                 ''Establishing a secure connection and authenticating with the SFTP server.'' st)))
        = Inl e)
   \<and> (transport_close lib (p_transport s) (world st) = (Inl e', w1) \<longrightarrow>
        close_existing lib s
          (log_msg (p_logger s) INFO
            ''Establishing a secure connection and authenticating with the SFTP server.'' st) =
        \<lparr>world = w1, events = events st @
           [Log (p_logger s) INFO
              ''Establishing a secure connection and authenticating with the SFTP server.'',
            Ev_transport_close (p_transport s) (Inl e'),
            Log (p_logger s) WARNING (''Error closing existing connection: '' @ exn_str e')]\<rparr>
        \<and> take 3 (added st (snd (snd (reconnect lib s st)))) =
           [Log (p_logger s) INFO
              ''Establishing a secure connection and authenticating with the SFTP server.'',
            Ev_transport_close (p_transport s) (Inl e'),
            Log (p_logger s) WARNING (''Error closing existing connection: '' @ exn_str e')]
        \<and> reconnect lib s st =
           (case auth lib (p_logger s) (p_configuration s)
                   \<lparr>world = w1, events = events st @
                      [Log (p_logger s) INFO
                         ''Establishing a secure connection and authenticating with the SFTP server.'',
                       Ev_transport_close (p_transport s) (Inl e'),
                       Log (p_logger s) WARNING
                         (''Error closing existing connection: '' @ exn_str e')]\<rparr> of
              (Inl x, st') \<Rightarrow> (Inl x, s, st')
            | (Inr (t, c), st') \<Rightarrow> (Inr (), s\<lparr>p_transport := t, sftp_client := c\<rparr>, st')))
   \<and> (transport_close lib (p_transport s) (world st) = (Inr v, w1)
        \<and> sftp_close lib (sftp_client s) w1 = (Inl e', w2) \<longrightarrow>
        close_existing lib s
          (log_msg (p_logger s) INFO
            ''Establishing a secure connection and authenticating with the SFTP server.'' st) =
        \<lparr>world = w2, events = events st @
           [Log (p_logger s) INFO
              ''Establishing a secure connection and authenticating with the SFTP server.'',
            Ev_transport_close (p_transport s) (Inr v),
            Ev_client_close (sftp_client s) (Inl e'),
            Log (p_logger s) WARNING (''Error closing existing connection: '' @ exn_str e')]\<rparr>
        \<and> take 4 (added st (snd (snd (reconnect lib s st)))) =
           [Log (p_logger s) INFO
              ''Establishing a secure connection and authenticating with the SFTP server.'',
            Ev_transport_close (p_transport s) (Inr v),
            Ev_client_close (sftp_client s) (Inl e'),
            Log (p_logger s) WARNING (''Error closing existing connection: '' @ exn_str e')]
        \<and> reconnect lib s st =
           (case auth lib (p_logger s) (p_configuration s)
                   \<lparr>world = w2, events = events st @
                      [Log (p_logger s) INFO
                         ''Establishing a secure connection and authenticating with the SFTP server.'',
                       Ev_transport_close (p_transport s) (Inr v),
                       Ev_client_close (sftp_client s) (Inl e'),
                       Log (p_logger s) WARNING
                         (''Error closing existing connection: '' @ exn_str e')]\<rparr> of
              (Inl x, st') \<Rightarrow> (Inl x, s, st')
            | (Inr (t, c), st') \<Rightarrow> (Inr (), s\<lparr>p_transport := t, sftp_client := c\<rparr>, st')))
   \<and> (transport_close lib (p_transport s) (world st) = (Inr v, w1)
        \<and> sftp_close lib (sftp_client s) w1 = (Inr v', w2) \<longrightarrow>
        filter is_warning (added st (snd (snd (reconnect lib s st)))) = []
        \<and> reconnect lib s st =
           (case auth lib (p_logger s) (p_configuration s)
                   \<lparr>world = w2, events = events st @
                      [Log (p_logger s) INFO
                         ''Establishing a secure connection and authenticating with the SFTP server.'',
                       Ev_transport_close (p_transport s) (Inr v),
                       Ev_client_close (sftp_client s) (Inr v')]\<rparr> of
              (Inl x, st') \<Rightarrow> (Inl x, s, st')
            | (Inr (t, c), st') \<Rightarrow> (Inr (), s\<lparr>p_transport := t, sftp_client := c\<rparr>, st')))"
proof -
  let ?m = "''Establishing a secure connection and authenticating with the SFTP server.''"
  let ?st1 = "log_msg (p_logger s) INFO ?m st"
  have iff: "fst (reconnect lib s st) = Inl e \<longleftrightarrow>
      fst (auth lib (p_logger s) (p_configuration s) (close_existing lib s ?st1)) = Inl e"
    by (simp add: reconnect_result map_sum_def split: sum.splits)
  have w: "world ?st1 = world st" and ev: "events ?st1 = events st @ [Log (p_logger s) INFO ?m]"
    by (simp_all add: log_msg_def)
  have from_state: "reconnect lib s st =
      (case auth lib (p_logger s) (p_configuration s) st2 of
         (Inl x, st') \<Rightarrow> (Inl x, s, st')
       | (Inr (t, c), st') \<Rightarrow> (Inr (), s\<lparr>p_transport := t, sftp_client := c\<rparr>, st'))"
    if "close_existing lib s ?st1 = st2" for st2
    using that by (simp add: reconnect_def)
  have rest: "\<exists>ys. added st (snd (snd (reconnect lib s st))) = xs @ ys \<and> filter is_warning ys = []"
    if "close_existing lib s ?st1 = \<lparr>world = w', events = events st @ xs\<rparr>" for w' xs
  proof -
    from auth_events [of lib "p_logger s" "p_configuration s" "close_existing lib s ?st1"]
    obtain ys where e: "events (snd (auth lib (p_logger s) (p_configuration s)
                                   (close_existing lib s ?st1))) =
                        events (close_existing lib s ?st1) @ ys"
      and f: "filter is_warning ys = []"
      by blast
    from e have "events (snd (snd (reconnect lib s st))) = events st @ xs @ ys"
      by (simp add: reconnect_state that)
    then have a: "added st (snd (snd (reconnect lib s st))) = xs @ ys"
      by simp
    with f show "\<exists>ys. added st (snd (snd (reconnect lib s st))) = xs @ ys \<and> filter is_warning ys = []"
      by blast
  qed
  show ?thesis
  proof (intro conjI impI)
    show "fst (reconnect lib s st) = Inl e \<longleftrightarrow>
      fst (auth lib (p_logger s) (p_configuration s) (close_existing lib s ?st1)) = Inl e"
      by (rule iff)
  next
    assume "transport_close lib (p_transport s) (world st) = (Inl e', w1)"
    then have "transport_close lib (p_transport s) (world ?st1) = (Inl e', w1)"
      by (simp add: w)
    from close_existing_transport_fails [OF this]
    have c: "close_existing lib s ?st1 =
        \<lparr>world = w1, events = events st @
           [Log (p_logger s) INFO ?m,
            Ev_transport_close (p_transport s) (Inl e'),
            Log (p_logger s) WARNING (''Error closing existing connection: '' @ exn_str e')]\<rparr>"
      by (simp add: ev)
    then show "close_existing lib s ?st1 =
        \<lparr>world = w1, events = events st @
           [Log (p_logger s) INFO ?m,
            Ev_transport_close (p_transport s) (Inl e'),
            Log (p_logger s) WARNING (''Error closing existing connection: '' @ exn_str e')]\<rparr>" .
    from rest [OF c]
    show "take 3 (added st (snd (snd (reconnect lib s st)))) =
           [Log (p_logger s) INFO ?m,
            Ev_transport_close (p_transport s) (Inl e'),
            Log (p_logger s) WARNING (''Error closing existing connection: '' @ exn_str e')]"
      by auto
    from from_state [OF c]
    show "reconnect lib s st =
           (case auth lib (p_logger s) (p_configuration s)
                   \<lparr>world = w1, events = events st @
                      [Log (p_logger s) INFO ?m,
                       Ev_transport_close (p_transport s) (Inl e'),
                       Log (p_logger s) WARNING
                         (''Error closing existing connection: '' @ exn_str e')]\<rparr> of
              (Inl x, st') \<Rightarrow> (Inl x, s, st')
            | (Inr (t, c), st') \<Rightarrow> (Inr (), s\<lparr>p_transport := t, sftp_client := c\<rparr>, st'))" .
  next
    assume "transport_close lib (p_transport s) (world st) = (Inr v, w1)
        \<and> sftp_close lib (sftp_client s) w1 = (Inl e', w2)"
    then have "transport_close lib (p_transport s) (world ?st1) = (Inr v, w1)"
      and b: "sftp_close lib (sftp_client s) w1 = (Inl e', w2)"
      by (simp_all add: w)
    from close_existing_client_fails [OF this]
    have c: "close_existing lib s ?st1 =
        \<lparr>world = w2, events = events st @
           [Log (p_logger s) INFO ?m,
            Ev_transport_close (p_transport s) (Inr v),
            Ev_client_close (sftp_client s) (Inl e'),
            Log (p_logger s) WARNING (''Error closing existing connection: '' @ exn_str e')]\<rparr>"
      by (simp add: ev)
    then show "close_existing lib s ?st1 =
        \<lparr>world = w2, events = events st @
           [Log (p_logger s) INFO ?m,
            Ev_transport_close (p_transport s) (Inr v),
            Ev_client_close (sftp_client s) (Inl e'),
            Log (p_logger s) WARNING (''Error closing existing connection: '' @ exn_str e')]\<rparr>" .
    from rest [OF c]
    show "take 4 (added st (snd (snd (reconnect lib s st)))) =
           [Log (p_logger s) INFO ?m,
            Ev_transport_close (p_transport s) (Inr v),
            Ev_client_close (sftp_client s) (Inl e'),
            Log (p_logger s) WARNING (''Error closing existing connection: '' @ exn_str e')]"
      by auto
    from from_state [OF c]
    show "reconnect lib s st =
           (case auth lib (p_logger s) (p_configuration s)
                   \<lparr>world = w2, events = events st @
                      [Log (p_logger s) INFO ?m,
                       Ev_transport_close (p_transport s) (Inr v),
                       Ev_client_close (sftp_client s) (Inl e'),
                       Log (p_logger s) WARNING
                         (''Error closing existing connection: '' @ exn_str e')]\<rparr> of
              (Inl x, st') \<Rightarrow> (Inl x, s, st')
            | (Inr (t, c), st') \<Rightarrow> (Inr (), s\<lparr>p_transport := t, sftp_client := c\<rparr>, st'))" .
  next
    assume "transport_close lib (p_transport s) (world st) = (Inr v, w1)
        \<and> sftp_close lib (sftp_client s) w1 = (Inr v', w2)"
    then have "transport_close lib (p_transport s) (world ?st1) = (Inr v, w1)"
      and b: "sftp_close lib (sftp_client s) w1 = (Inr v', w2)"
      by (simp_all add: w)
    from close_existing_both_close [OF this]
    have c: "close_existing lib s ?st1 =
        \<lparr>world = w2, events = events st @
           [Log (p_logger s) INFO ?m,
            Ev_transport_close (p_transport s) (Inr v),
            Ev_client_close (sftp_client s) (Inr v')]\<rparr>"
      by (simp add: ev)
    from rest [OF c]
    show "filter is_warning (added st (snd (snd (reconnect lib s st)))) = []"
      by auto
    from from_state [OF c]
    show "reconnect lib s st =
           (case auth lib (p_logger s) (p_configuration s)
                   \<lparr>world = w2, events = events st @
                      [Log (p_logger s) INFO ?m,
                       Ev_transport_close (p_transport s) (Inr v),
                       Ev_client_close (sftp_client s) (Inr v')]\<rparr> of
              (Inl x, st') \<Rightarrow> (Inl x, s, st')
            | (Inr (t, c), st') \<Rightarrow> (Inr (), s\<lparr>p_transport := t, sftp_client := c\<rparr>, st'))" .
  qed
qed

theorem reconnect_raises_iff_auth_raises_witness:
  "fst (reconnect (scripted Reject_login) s0 st0) =
     Inl (Exn ''AuthenticationException'' ''Authentication failed.'')
   \<and> fst (reconnect (scripted Transport_close_fails) s0 st0) \<noteq> Inl (Exn ''OSError'' ''Socket is closed'')
   \<and> fst (reconnect (scripted Transport_close_fails) s0 st0) = Inr ()
   \<and> take 3 (added st0 (snd (snd (reconnect (scripted Transport_close_fails) s0 st0)))) =
       [Log ''app'' INFO ''Establishing a secure connection and authenticating with the SFTP server.'',
        Ev_transport_close (TransportObj 0) (Inl (Exn ''OSError'' ''Socket is closed'')),
        Log ''app'' WARNING ''Error closing existing connection: Socket is closed'']
   \<and> fst (reconnect (scripted Client_close_fails) s0 st0) \<noteq> Inl (Exn ''EOFError'' ''Stream closed'')
   \<and> fst (reconnect (scripted Client_close_fails) s0 st0) = Inr ()
   \<and> take 4 (added st0 (snd (snd (reconnect (scripted Client_close_fails) s0 st0)))) =
       [Log ''app'' INFO ''Establishing a secure connection and authenticating with the SFTP server.'',
        Ev_transport_close (TransportObj 0) (Inr PyNone),
        Ev_client_close (SFTPClientObj 1) (Inl (Exn ''EOFError'' ''Stream closed'')),
        Log ''app'' WARNING ''Error closing existing connection: Stream closed'']
   \<and> filter is_warning (added st0 (snd (snd (reconnect (scripted No_fault) s0 st0)))) = []
   \<and> reconnect (scripted No_fault) s0 st0 =
       (Inr (), s0\<lparr>p_transport := TransportObj 2, sftp_client := SFTPClientObj 3\<rparr>,
        \<lparr>world = 4, events = events st0 @
           [Log ''app'' INFO ''Establishing a secure connection and authenticating with the SFTP server.'',
            Ev_transport_close (TransportObj 0) (Inr PyNone),
            Ev_client_close (SFTPClientObj 1) (Inr PyNone),
            Log ''app'' INFO ''Establishing a new SFTP session with the remote server.'',
            Ev_Transport ''sftp.example.org'' 22 (Inr (TransportObj 2)),
            Ev_connect (TransportObj 2) ''alice'' (Some ''s3cret'') (Inr PyNone),
            Ev_from_transport (TransportObj 2) (Inr (SFTPClientObj 3))]\<rparr>)"
proof -
  note inst = reconnect_raises_iff_auth_raises [where s = s0 and st = st0]
  have a: "fst (reconnect (scripted Reject_login) s0 st0) =
     Inl (Exn ''AuthenticationException'' ''Authentication failed.'')"
    using inst [where lib = "scripted Reject_login"
        and e = "Exn ''AuthenticationException'' ''Authentication failed.''"]
    by (simp add: auth_def close_existing_def invoke_def log_msg_def scripted_def s0_def st0_def cfg0_def)
  have b: "fst (reconnect (scripted Transport_close_fails) s0 st0) \<noteq> Inl (Exn ''OSError'' ''Socket is closed'')
   \<and> fst (reconnect (scripted Transport_close_fails) s0 st0) = Inr ()
   \<and> take 3 (added st0 (snd (snd (reconnect (scripted Transport_close_fails) s0 st0)))) =
       [Log ''app'' INFO ''Establishing a secure connection and authenticating with the SFTP server.'',
        Ev_transport_close (TransportObj 0) (Inl (Exn ''OSError'' ''Socket is closed'')),
        Log ''app'' WARNING ''Error closing existing connection: Socket is closed'']"
    using inst [where lib = "scripted Transport_close_fails" and e = "Exn ''OSError'' ''Socket is closed''"
        and e' = "Exn ''OSError'' ''Socket is closed''" and ?w1.0 = 2]
    by (simp add: auth_def close_existing_def invoke_def log_msg_def scripted_def s0_def st0_def cfg0_def)
  have c: "fst (reconnect (scripted Client_close_fails) s0 st0) \<noteq> Inl (Exn ''EOFError'' ''Stream closed'')
   \<and> fst (reconnect (scripted Client_close_fails) s0 st0) = Inr ()
   \<and> take 4 (added st0 (snd (snd (reconnect (scripted Client_close_fails) s0 st0)))) =
       [Log ''app'' INFO ''Establishing a secure connection and authenticating with the SFTP server.'',
        Ev_transport_close (TransportObj 0) (Inr PyNone),
        Ev_client_close (SFTPClientObj 1) (Inl (Exn ''EOFError'' ''Stream closed'')),
        Log ''app'' WARNING ''Error closing existing connection: Stream closed'']"
    using inst [where lib = "scripted Client_close_fails" and e = "Exn ''EOFError'' ''Stream closed''"
        and e' = "Exn ''EOFError'' ''Stream closed''" and v = PyNone and ?w1.0 = 2 and ?w2.0 = 2]
    by (simp add: auth_def close_existing_def invoke_def log_msg_def scripted_def s0_def st0_def cfg0_def)
  have d: "filter is_warning (added st0 (snd (snd (reconnect (scripted No_fault) s0 st0)))) = []
   \<and> reconnect (scripted No_fault) s0 st0 =
       (Inr (), s0\<lparr>p_transport := TransportObj 2, sftp_client := SFTPClientObj 3\<rparr>,
        \<lparr>world = 4, events = events st0 @
           [Log ''app'' INFO ''Establishing a secure connection and authenticating with the SFTP server.'',
            Ev_transport_close (TransportObj 0) (Inr PyNone),
            Ev_client_close (SFTPClientObj 1) (Inr PyNone),
            Log ''app'' INFO ''Establishing a new SFTP session with the remote server.'',
            Ev_Transport ''sftp.example.org'' 22 (Inr (TransportObj 2)),
            Ev_connect (TransportObj 2) ''alice'' (Some ''s3cret'') (Inr PyNone),
            Ev_from_transport (TransportObj 2) (Inr (SFTPClientObj 3))]\<rparr>)"
    using inst [where lib = "scripted No_fault" and v = PyNone and v' = PyNone
        and ?w1.0 = 2 and ?w2.0 = 2]
    by (simp add: auth_def invoke_def log_msg_def scripted_def s0_def st0_def cfg0_def
        numeral_eq_Suc)
  from a b c d show ?thesis by blast
qed



text \<open>
  C10. In \<^verbatim>\<open>reconnect\<close> the close of the transport comes first. When it raises, the
  close of the client is not called at all in that \<^verbatim>\<open>reconnect\<close>: one warning is logged
  and the run of \<^verbatim>\<open>auth\<close> follows. When it returns, the close of the client is the next
  call.
\<close>

theorem reconnect_close_order:
  "(transport_close lib (p_transport s) (world st) = (Inl e, w1) \<longrightarrow>
      take 3 (added st (snd (snd (reconnect lib s st)))) =
        [Log (p_logger s) INFO
           ''Establishing a secure connection and authenticating with the SFTP server.'',
         Ev_transport_close (p_transport s) (Inl e),
         Log (p_logger s) WARNING (''Error closing existing connection: '' @ exn_str e)]
      \<and> filter is_client_close (added st (snd (snd (reconnect lib s st)))) = []
      \<and> filter is_warning (added st (snd (snd (reconnect lib s st)))) =
          [Log (p_logger s) WARNING (''Error closing existing connection: '' @ exn_str e)]
      \<and> reconnect lib s st =
          (case auth lib (p_logger s) (p_configuration s)
                  \<lparr>world = w1, events = events st @
                     [Log (p_logger s) INFO
                        ''Establishing a secure connection and authenticating with the SFTP server.'',
                      Ev_transport_close (p_transport s) (Inl e),
                      Log (p_logger s) WARNING
                        (''Error closing existing connection: '' @ exn_str e)]\<rparr> of
             (Inl e', st') \<Rightarrow> (Inl e', s, st')
           | (Inr (t, c), st') \<Rightarrow> (Inr (), s\<lparr>p_transport := t, sftp_client := c\<rparr>, st')))
   \<and> (transport_close lib (p_transport s) (world st) = (Inr v, w1)
        \<and> sftp_close lib (sftp_client s) w1 = (r, w2) \<longrightarrow>
      take 3 (added st (snd (snd (reconnect lib s st)))) =
        [Log (p_logger s) INFO
           ''Establishing a secure connection and authenticating with the SFTP server.'',
         Ev_transport_close (p_transport s) (Inr v),
         Ev_client_close (sftp_client s) r]
      \<and> filter is_transport_close (added st (snd (snd (reconnect lib s st)))) =
          [Ev_transport_close (p_transport s) (Inr v)]
      \<and> filter is_client_close (added st (snd (snd (reconnect lib s st)))) =
          [Ev_client_close (sftp_client s) r])"
proof (intro conjI impI)
  assume a: "transport_close lib (p_transport s) (world st) = (Inl e, w1)"
  from reconnect_events_transport_fails [OF a]
  obtain ys where ev: "events (snd (snd (reconnect lib s st))) = events st @
       [Log (p_logger s) INFO
          ''Establishing a secure connection and authenticating with the SFTP server.'',
        Ev_transport_close (p_transport s) (Inl e),
        Log (p_logger s) WARNING (''Error closing existing connection: '' @ exn_str e)] @ ys"
    and f: "filter is_client_close ys = []" "filter is_warning ys = []"
    by blast
  from ev show "take 3 (added st (snd (snd (reconnect lib s st)))) =
        [Log (p_logger s) INFO
           ''Establishing a secure connection and authenticating with the SFTP server.'',
         Ev_transport_close (p_transport s) (Inl e),
         Log (p_logger s) WARNING (''Error closing existing connection: '' @ exn_str e)]"
    by simp
  from ev f show "filter is_client_close (added st (snd (snd (reconnect lib s st)))) = []"
    by simp
  from ev f show "filter is_warning (added st (snd (snd (reconnect lib s st)))) =
          [Log (p_logger s) WARNING (''Error closing existing connection: '' @ exn_str e)]"
    by simp
  have "transport_close lib (p_transport s)
          (world (log_msg (p_logger s) INFO
             ''Establishing a secure connection and authenticating with the SFTP server.'' st))
        = (Inl e, w1)"
    using a by (simp add: log_msg_def)
  from close_existing_transport_fails [OF this]
  show "reconnect lib s st =
          (case auth lib (p_logger s) (p_configuration s)
                  \<lparr>world = w1, events = events st @
                     [Log (p_logger s) INFO
                        ''Establishing a secure connection and authenticating with the SFTP server.'',
                      Ev_transport_close (p_transport s) (Inl e),
                      Log (p_logger s) WARNING
                        (''Error closing existing connection: '' @ exn_str e)]\<rparr> of
             (Inl e', st') \<Rightarrow> (Inl e', s, st')
           | (Inr (t, c), st') \<Rightarrow> (Inr (), s\<lparr>p_transport := t, sftp_client := c\<rparr>, st'))"
    by (simp add: reconnect_def log_msg_def)
next
  assume "transport_close lib (p_transport s) (world st) = (Inr v, w1)
        \<and> sftp_close lib (sftp_client s) w1 = (r, w2)"
  then have a: "transport_close lib (p_transport s) (world st) = (Inr v, w1)"
    and b: "sftp_close lib (sftp_client s) w1 = (r, w2)"
    by simp_all
  from reconnect_events_transport_closes [OF a b]
  obtain ys where ev: "events (snd (snd (reconnect lib s st))) = events st @
       [Log (p_logger s) INFO
          ''Establishing a secure connection and authenticating with the SFTP server.'',
        Ev_transport_close (p_transport s) (Inr v),
        Ev_client_close (sftp_client s) r] @ ys"
    and f: "filter is_transport_close ys = []" "filter is_client_close ys = []"
    by blast
  from ev show "take 3 (added st (snd (snd (reconnect lib s st)))) =
        [Log (p_logger s) INFO
           ''Establishing a secure connection and authenticating with the SFTP server.'',
         Ev_transport_close (p_transport s) (Inr v),
         Ev_client_close (sftp_client s) r]"
    by simp
  from ev f show "filter is_transport_close (added st (snd (snd (reconnect lib s st)))) =
          [Ev_transport_close (p_transport s) (Inr v)]"
    by simp
  from ev f show "filter is_client_close (added st (snd (snd (reconnect lib s st)))) =
          [Ev_client_close (sftp_client s) r]"
    by simp
qed

theorem reconnect_close_order_witness:
  "take 3 (added st0 (snd (snd (reconnect (scripted Transport_close_fails) s0 st0)))) =
     [Log ''app'' INFO ''Establishing a secure connection and authenticating with the SFTP server.'',
      Ev_transport_close (TransportObj 0) (Inl (Exn ''OSError'' ''Socket is closed'')),
      Log ''app'' WARNING ''Error closing existing connection: Socket is closed'']
   \<and> filter is_client_close (added st0 (snd (snd (reconnect (scripted Transport_close_fails) s0 st0)))) = []
   \<and> fst (reconnect (scripted Transport_close_fails) s0 st0) = Inr ()
   \<and> take 3 (added st0 (snd (snd (reconnect (scripted No_fault) s0 st0)))) =
     [Log ''app'' INFO ''Establishing a secure connection and authenticating with the SFTP server.'',
      Ev_transport_close (TransportObj 0) (Inr PyNone),
      Ev_client_close (SFTPClientObj 1) (Inr PyNone)]"
proof -
  note inst = reconnect_close_order [where s = s0 and st = st0]
  have a: "take 3 (added st0 (snd (snd (reconnect (scripted Transport_close_fails) s0 st0)))) =
     [Log ''app'' INFO ''Establishing a secure connection and authenticating with the SFTP server.'',
      Ev_transport_close (TransportObj 0) (Inl (Exn ''OSError'' ''Socket is closed'')),
      Log ''app'' WARNING ''Error closing existing connection: Socket is closed'']
   \<and> filter is_client_close (added st0 (snd (snd (reconnect (scripted Transport_close_fails) s0 st0)))) = []
   \<and> fst (reconnect (scripted Transport_close_fails) s0 st0) = Inr ()"
    using inst [where lib = "scripted Transport_close_fails" and e = "Exn ''OSError'' ''Socket is closed''"
        and ?w1.0 = 2]
    by (simp add: auth_def invoke_def log_msg_def scripted_def s0_def st0_def cfg0_def)
  have b: "take 3 (added st0 (snd (snd (reconnect (scripted No_fault) s0 st0)))) =
     [Log ''app'' INFO ''Establishing a secure connection and authenticating with the SFTP server.'',
      Ev_transport_close (TransportObj 0) (Inr PyNone),
      Ev_client_close (SFTPClientObj 1) (Inr PyNone)]"
    using inst [where lib = "scripted No_fault" and v = PyNone and r = "Inr PyNone"
        and ?w1.0 = 2 and ?w2.0 = 2]
    by (simp add: scripted_def s0_def st0_def)
  from a b show ?thesis by simp
qed

text \<open>
  C6. \<^verbatim>\<open>is_connected\<close> returns what \<^verbatim>\<open>is_active\<close> of the transport returns (or raises
  what it raises). It logs one info message and makes that one call, none to the client,
  and leaves the object as it was.
\<close>

theorem is_connected_reports_transport:
  assumes "transport_is_active lib (p_transport s) (world st) = (r, w')"
  shows "is_connected lib s st =
    (r, s, \<lparr>world = w', events = events st @
       [Log (p_logger s) INFO ''Checking if the SFTP connection is currently active.'',
        Ev_is_active (p_transport s) r]\<rparr>)"
  using assms by (simp add: is_connected_def invoke_def log_msg_def)

theorem is_connected_reports_transport_witness:
  "transport_is_active (scripted No_fault) (p_transport s0) (world st0) = (Inr True, 2)
   \<and> is_connected (scripted No_fault) s0 st0 =
    (Inr True, s0, \<lparr>world = 2, events = events st0 @
       [Log ''app'' INFO ''Checking if the SFTP connection is currently active.'',
        Ev_is_active (TransportObj 0) (Inr True)]\<rparr>)"
proof -
  have h: "transport_is_active (scripted No_fault) (p_transport s0) (world st0) = (Inr True, 2)"
    by (simp add: scripted_def st0_def)
  from h is_connected_reports_transport [OF h] show ?thesis
    by (simp add: s0_def)
qed

text \<open>
  C7. The configuration is built in \<^verbatim>\<open>__init__\<close> from the arguments of the constructor
  (the port is 22 when it is left out), and no method changes it: after any one call, and
  after any sequence of calls of \<^verbatim>\<open>auth\<close>, \<^verbatim>\<open>reconnect\<close>, \<^verbatim>\<open>is_connected\<close>,
  \<^verbatim>\<open>list_dir\<close>, \<^verbatim>\<open>change_dir\<close>, \<^verbatim>\<open>delete_file\<close>, \<^verbatim>\<open>download_file\<close>, \<^verbatim>\<open>upload_file\<close>
  and \<^verbatim>\<open>__del__\<close>, the object holds the configuration it was built with.
\<close>

theorem configuration_never_changes:
  "(SFTP_init lib h u pw port_arg logger_arg st = (Inr s, st') \<longrightarrow>
      p_configuration s = \<lparr>host = h, port = arg_or 22 port_arg, username = u, password = pw\<rparr>
      \<and> p_configuration (fst (run lib ops (s, st'))) =
          \<lparr>host = h, port = arg_or 22 port_arg, username = u, password = pw\<rparr>)
   \<and> p_configuration (fst (step lib x (s1, st1))) = p_configuration s1
   \<and> p_configuration (fst (run lib ops (s1, st1))) = p_configuration s1"
proof (intro conjI impI)
  assume a: "SFTP_init lib h u pw port_arg logger_arg st = (Inr s, st')"
  then show c: "p_configuration s = \<lparr>host = h, port = arg_or 22 port_arg, username = u, password = pw\<rparr>"
    by (auto simp: SFTP_init_def Let_def split: prod.splits sum.splits)
  then show "p_configuration (fst (run lib ops (s, st'))) =
          \<lparr>host = h, port = arg_or 22 port_arg, username = u, password = pw\<rparr>"
    by (simp add: run_configuration)
qed (simp_all add: step_configuration run_configuration)

theorem configuration_never_changes_witness:
  "SFTP_init (scripted No_fault) ''sftp.example.org'' ''alice'' (Some ''s3cret'') None (Some ''app'')
     empty_sys = (Inr s0, st0)
   \<and> p_configuration s0 =
       \<lparr>host = ''sftp.example.org'', port = 22, username = ''alice'', password = Some ''s3cret''\<rparr>
   \<and> p_configuration (fst (run (scripted No_fault)
         [Is_connected, List_dir None, Change_dir (Some ''/a/b''), Upload_file ''r.csv'' ''/in/r.csv'',
          Reconnect, Download_file ''/in/r.csv'' ''copy.csv'', Delete_file ''/in/r.csv'', Auth, Del]
         (s0, st0))) =
       \<lparr>host = ''sftp.example.org'', port = 22, username = ''alice'', password = Some ''s3cret''\<rparr>"
proof -
  have h: "SFTP_init (scripted No_fault) ''sftp.example.org'' ''alice'' (Some ''s3cret'') None (Some ''app'')
     empty_sys = (Inr s0, st0)"
    by (simp add: SFTP_init_def auth_def invoke_def log_msg_def scripted_def arg_or_def
        empty_sys_def s0_def st0_def cfg0_def numeral_2_eq_2 Let_def)
  from h configuration_never_changes [where lib = "scripted No_fault" and h = "''sftp.example.org''"
      and u = "''alice''" and pw = "Some ''s3cret''" and port_arg = None and logger_arg = "Some ''app''"
      and st = empty_sys and s = s0 and st' = st0
      and ops = "[Is_connected, List_dir None, Change_dir (Some ''/a/b''), Upload_file ''r.csv'' ''/in/r.csv'',
          Reconnect, Download_file ''/in/r.csv'' ''copy.csv'', Delete_file ''/in/r.csv'', Auth, Del]"]
  show ?thesis by (simp add: arg_or_def)
qed

text \<open>
  C8, as amended. Each of \<^verbatim>\<open>list_dir\<close>, \<^verbatim>\<open>change_dir\<close>, \<^verbatim>\<open>delete_file\<close>,
  \<^verbatim>\<open>download_file\<close> and \<^verbatim>\<open>upload_file\<close> logs its message and then each of its path
  arguments at info level, then makes its one call of the client, and the object is as it
  was. The exception raised, if any, is the one that call raised. \<^verbatim>\<open>list_dir\<close> returns
  the value of that call; the other four return \<^verbatim>\<open>None\<close>, whatever the call returned.
\<close>

theorem file_operations_log_then_delegate:
  "(sftp_listdir lib (sftp_client s) (arg_or ''.'' path_arg) (world st) = (names, w') \<longrightarrow>
      list_dir lib s path_arg st =
        (names, s, \<lparr>world = w', events = events st @
           [Log (p_logger s) INFO
              ''Listing the names of the contents in the specified folder on the SFTP server.'',
            Log (p_logger s) INFO (arg_or ''.'' path_arg),
            Ev_listdir (sftp_client s) (arg_or ''.'' path_arg) names]\<rparr>))
   \<and> (sftp_chdir lib (sftp_client s) (arg_or ''.'' path_arg) (world st) = (r, w') \<longrightarrow>
      change_dir lib s path_arg st =
        (map_sum id (\<lambda>_. PyNone) r, s, \<lparr>world = w', events = events st @
           [Log (p_logger s) INFO ''Changing the current working directory on the SFTP server.'',
            Log (p_logger s) INFO (arg_or ''.'' path_arg),
            Ev_chdir (sftp_client s) (arg_or ''.'' path_arg) r]\<rparr>))
   \<and> (sftp_remove lib (sftp_client s) filename (world st) = (r, w') \<longrightarrow>
      delete_file lib s filename st =
        (map_sum id (\<lambda>_. PyNone) r, s, \<lparr>world = w', events = events st @
           [Log (p_logger s) INFO ''Deleting a file from the SFTP server.'',
            Log (p_logger s) INFO filename,
            Ev_remove (sftp_client s) filename r]\<rparr>))
   \<and> (sftp_get lib (sftp_client s) remote_path local_path (world st) = (r, w') \<longrightarrow>
      download_file lib s remote_path local_path st =
        (map_sum id (\<lambda>_. PyNone) r, s, \<lparr>world = w', events = events st @
           [Log (p_logger s) INFO ''Downloading a file from the SFTP server to the local machine.'',
            Log (p_logger s) INFO remote_path,
            Log (p_logger s) INFO local_path,
            Ev_get (sftp_client s) remote_path local_path r]\<rparr>))
   \<and> (sftp_put lib (sftp_client s) local_path remote_path (world st) = (r, w') \<longrightarrow>
      upload_file lib s local_path remote_path st =
        (map_sum id (\<lambda>_. PyNone) r, s, \<lparr>world = w', events = events st @
           [Log (p_logger s) INFO ''Uploading a file from the local machine to the SFTP server.'',
            Log (p_logger s) INFO local_path,
            Log (p_logger s) INFO remote_path,
            Ev_put (sftp_client s) local_path remote_path r]\<rparr>))"
  by (simp add: list_dir_def change_dir_def delete_file_def download_file_def upload_file_def
      invoke_def log_msg_def Let_def split: sum.splits)

theorem file_operations_log_then_delegate_witness:
  "list_dir (scripted No_fault) s0 (Some ''/a/b'') st0 =
     (Inr [''x.txt'', ''y.txt''], s0, \<lparr>world = 2, events = events st0 @
        [Log ''app'' INFO
           ''Listing the names of the contents in the specified folder on the SFTP server.'',
         Log ''app'' INFO ''/a/b'',
         Ev_listdir (SFTPClientObj 1) ''/a/b'' (Inr [''x.txt'', ''y.txt''])]\<rparr>)
   \<and> change_dir (scripted Io_fails) s0 None st0 =
     (Inl (Exn ''FileNotFoundError'' ''No such file''), s0, \<lparr>world = 2, events = events st0 @
        [Log ''app'' INFO ''Changing the current working directory on the SFTP server.'',
         Log ''app'' INFO ''.'',
         Ev_chdir (SFTPClientObj 1) ''.'' (Inl (Exn ''FileNotFoundError'' ''No such file''))]\<rparr>)
   \<and> delete_file (scripted No_fault) s0 ''old.txt'' st0 =
     (Inr PyNone, s0, \<lparr>world = 2, events = events st0 @
        [Log ''app'' INFO ''Deleting a file from the SFTP server.'',
         Log ''app'' INFO ''old.txt'',
         Ev_remove (SFTPClientObj 1) ''old.txt'' (Inr PyNone)]\<rparr>)
   \<and> download_file (scripted No_fault) s0 ''/out/r.csv'' ''r.csv'' st0 =
     (Inr PyNone, s0, \<lparr>world = 2, events = events st0 @
        [Log ''app'' INFO ''Downloading a file from the SFTP server to the local machine.'',
         Log ''app'' INFO ''/out/r.csv'',
         Log ''app'' INFO ''r.csv'',
         Ev_get (SFTPClientObj 1) ''/out/r.csv'' ''r.csv'' (Inr PyNone)]\<rparr>)
   \<and> upload_file (scripted No_fault) s0 ''report.csv'' ''/in/report.csv'' st0 =
     (Inr PyNone, s0, \<lparr>world = 2, events = events st0 @
        [Log ''app'' INFO ''Uploading a file from the local machine to the SFTP server.'',
         Log ''app'' INFO ''report.csv'',
         Log ''app'' INFO ''/in/report.csv'',
         Ev_put (SFTPClientObj 1) ''report.csv'' ''/in/report.csv'' (Inr (PyObj 7))]\<rparr>)"
proof -
  note inst = file_operations_log_then_delegate [where s = s0 and st = st0 and w' = 2]
  have a: "list_dir (scripted No_fault) s0 (Some ''/a/b'') st0 =
     (Inr [''x.txt'', ''y.txt''], s0, \<lparr>world = 2, events = events st0 @
        [Log ''app'' INFO
           ''Listing the names of the contents in the specified folder on the SFTP server.'',
         Log ''app'' INFO ''/a/b'',
         Ev_listdir (SFTPClientObj 1) ''/a/b'' (Inr [''x.txt'', ''y.txt''])]\<rparr>)"
    using inst [where lib = "scripted No_fault" and path_arg = "Some ''/a/b''"
        and names = "Inr [''x.txt'', ''y.txt'']"]
    by (simp add: scripted_def s0_def st0_def arg_or_def)
  have b: "change_dir (scripted Io_fails) s0 None st0 =
     (Inl (Exn ''FileNotFoundError'' ''No such file''), s0, \<lparr>world = 2, events = events st0 @
        [Log ''app'' INFO ''Changing the current working directory on the SFTP server.'',
         Log ''app'' INFO ''.'',
         Ev_chdir (SFTPClientObj 1) ''.'' (Inl (Exn ''FileNotFoundError'' ''No such file''))]\<rparr>)"
    using inst [where lib = "scripted Io_fails" and path_arg = None
        and r = "Inl (Exn ''FileNotFoundError'' ''No such file'')"]
    by (simp add: scripted_def s0_def st0_def arg_or_def)
  have c: "delete_file (scripted No_fault) s0 ''old.txt'' st0 =
     (Inr PyNone, s0, \<lparr>world = 2, events = events st0 @
        [Log ''app'' INFO ''Deleting a file from the SFTP server.'',
         Log ''app'' INFO ''old.txt'',
         Ev_remove (SFTPClientObj 1) ''old.txt'' (Inr PyNone)]\<rparr>)"
    using inst [where lib = "scripted No_fault" and filename = "''old.txt''" and r = "Inr PyNone"]
    by (simp add: scripted_def s0_def st0_def)
  have d: "download_file (scripted No_fault) s0 ''/out/r.csv'' ''r.csv'' st0 =
     (Inr PyNone, s0, \<lparr>world = 2, events = events st0 @
        [Log ''app'' INFO ''Downloading a file from the SFTP server to the local machine.'',
         Log ''app'' INFO ''/out/r.csv'',
         Log ''app'' INFO ''r.csv'',
         Ev_get (SFTPClientObj 1) ''/out/r.csv'' ''r.csv'' (Inr PyNone)]\<rparr>)"
    using inst [where lib = "scripted No_fault" and remote_path = "''/out/r.csv''"
        and local_path = "''r.csv''" and r = "Inr PyNone"]
    by (simp add: scripted_def s0_def st0_def)
  have e: "upload_file (scripted No_fault) s0 ''report.csv'' ''/in/report.csv'' st0 =
     (Inr PyNone, s0, \<lparr>world = 2, events = events st0 @
        [Log ''app'' INFO ''Uploading a file from the local machine to the SFTP server.'',
         Log ''app'' INFO ''report.csv'',
         Log ''app'' INFO ''/in/report.csv'',
         Ev_put (SFTPClientObj 1) ''report.csv'' ''/in/report.csv'' (Inr (PyObj 7))]\<rparr>)"
    using inst [where lib = "scripted No_fault" and remote_path = "''/in/report.csv''"
        and local_path = "''report.csv''" and r = "Inr (PyObj 7)"]
    by (simp add: scripted_def s0_def st0_def)
  from a b c d e show ?thesis by blast
qed

text \<open>
  C8 as stated fails for \<^verbatim>\<open>upload_file\<close>: \<^verbatim>\<open>put\<close> returns an object and the method
  returns \<^verbatim>\<open>None\<close>.
\<close>

theorem upload_drops_value_counterexample:
  "fst (sftp_put (scripted No_fault) (sftp_client s0) ''report.csv'' ''/in/report.csv'' (world st0))
     = Inr (PyObj 7)
   \<and> fst (upload_file (scripted No_fault) s0 ''report.csv'' ''/in/report.csv'' st0) = Inr PyNone"
  by (simp add: upload_file_def invoke_def log_msg_def scripted_def s0_def st0_def)

text \<open>
  C3, as amended. Final teardown, the interpreter running \<^verbatim>\<open>__del__\<close> on a session that
  goes out of use, is best-effort: it never raises into the caller, whatever the closes
  do. It logs an info message, closes the transport and then the client; when both closes
  return, both handles have been closed. A failure of the close of the client is
  discarded after both closes were called. A failure of the close of the transport is
  discarded too, and then the close of the client is not called.
\<close>

theorem teardown_closes_in_order:
  "fst (finalize lib s st) = Inr ()
   \<and> (transport_close lib (p_transport s) (world st) = (Inr v, w1)
      \<and> sftp_close lib (sftp_client s) w1 = (Inr v', w2) \<longrightarrow>
      finalize lib s st =
        (Inr (), \<lparr>world = w2, events = events st @
           [Log (p_logger s) INFO ''Closing the SFTP session and releasing resources.'',
            Ev_transport_close (p_transport s) (Inr v),
            Ev_client_close (sftp_client s) (Inr v')]\<rparr>)
      \<and> closed_together (added st (snd (finalize lib s st))))
   \<and> (transport_close lib (p_transport s) (world st) = (Inr v, w1)
      \<and> sftp_close lib (sftp_client s) w1 = (Inl e, w2) \<longrightarrow>
      finalize lib s st =
        (Inr (), \<lparr>world = w2, events = events st @
           [Log (p_logger s) INFO ''Closing the SFTP session and releasing resources.'',
            Ev_transport_close (p_transport s) (Inr v),
            Ev_client_close (sftp_client s) (Inl e),
            Unraisable e]\<rparr>)
      \<and> closed_together (added st (snd (finalize lib s st))))
   \<and> (transport_close lib (p_transport s) (world st) = (Inl e, w1) \<longrightarrow>
      finalize lib s st =
        (Inr (), \<lparr>world = w1, events = events st @
           [Log (p_logger s) INFO ''Closing the SFTP session and releasing resources.'',
            Ev_transport_close (p_transport s) (Inl e),
            Unraisable e]\<rparr>)
      \<and> filter is_client_close (added st (snd (finalize lib s st))) = [])"
proof (intro conjI impI)
  show "fst (finalize lib s st) = Inr ()"
    by (simp add: finalize_def split: prod.splits sum.splits)
qed (simp_all add: finalize_def SFTP_del_def invoke_def log_msg_def added_def closed_together_def)

theorem teardown_closes_in_order_witness:
  "finalize (scripted No_fault) s0 st0 =
     (Inr (), \<lparr>world = 2, events = events st0 @
        [Log ''app'' INFO ''Closing the SFTP session and releasing resources.'',
         Ev_transport_close (TransportObj 0) (Inr PyNone),
         Ev_client_close (SFTPClientObj 1) (Inr PyNone)]\<rparr>)
   \<and> closed_together (added st0 (snd (finalize (scripted No_fault) s0 st0)))
   \<and> finalize (scripted Client_close_fails) s0 st0 =
     (Inr (), \<lparr>world = 2, events = events st0 @
        [Log ''app'' INFO ''Closing the SFTP session and releasing resources.'',
         Ev_transport_close (TransportObj 0) (Inr PyNone),
         Ev_client_close (SFTPClientObj 1) (Inl (Exn ''EOFError'' ''Stream closed'')),
         Unraisable (Exn ''EOFError'' ''Stream closed'')]\<rparr>)
   \<and> finalize (scripted Transport_close_fails) s0 st0 =
     (Inr (), \<lparr>world = 2, events = events st0 @
        [Log ''app'' INFO ''Closing the SFTP session and releasing resources.'',
         Ev_transport_close (TransportObj 0) (Inl (Exn ''OSError'' ''Socket is closed'')),
         Unraisable (Exn ''OSError'' ''Socket is closed'')]\<rparr>)
   \<and> fst (finalize (scripted Transport_close_fails) s0 st0) = Inr ()"
proof -
  note inst = teardown_closes_in_order [where s = s0 and st = st0]
  have a: "finalize (scripted No_fault) s0 st0 =
     (Inr (), \<lparr>world = 2, events = events st0 @
        [Log ''app'' INFO ''Closing the SFTP session and releasing resources.'',
         Ev_transport_close (TransportObj 0) (Inr PyNone),
         Ev_client_close (SFTPClientObj 1) (Inr PyNone)]\<rparr>)
   \<and> closed_together (added st0 (snd (finalize (scripted No_fault) s0 st0)))"
    using inst [where lib = "scripted No_fault" and v = PyNone and v' = PyNone
        and ?w1.0 = 2 and ?w2.0 = 2]
    by (simp add: scripted_def s0_def st0_def closed_together_def added_def)
  have b: "finalize (scripted Client_close_fails) s0 st0 =
     (Inr (), \<lparr>world = 2, events = events st0 @
        [Log ''app'' INFO ''Closing the SFTP session and releasing resources.'',
         Ev_transport_close (TransportObj 0) (Inr PyNone),
         Ev_client_close (SFTPClientObj 1) (Inl (Exn ''EOFError'' ''Stream closed'')),
         Unraisable (Exn ''EOFError'' ''Stream closed'')]\<rparr>)"
    using inst [where lib = "scripted Client_close_fails" and v = PyNone
        and e = "Exn ''EOFError'' ''Stream closed''" and ?w1.0 = 2 and ?w2.0 = 2]
    by (simp add: scripted_def s0_def st0_def)
  have c: "finalize (scripted Transport_close_fails) s0 st0 =
     (Inr (), \<lparr>world = 2, events = events st0 @
        [Log ''app'' INFO ''Closing the SFTP session and releasing resources.'',
         Ev_transport_close (TransportObj 0) (Inl (Exn ''OSError'' ''Socket is closed'')),
         Unraisable (Exn ''OSError'' ''Socket is closed'')]\<rparr>)
   \<and> fst (finalize (scripted Transport_close_fails) s0 st0) = Inr ()"
    using inst [where lib = "scripted Transport_close_fails"
        and e = "Exn ''OSError'' ''Socket is closed''" and ?w1.0 = 2]
    by (simp add: scripted_def s0_def st0_def)
  from a b c show ?thesis by blast
qed

text \<open>
  C3 as stated fails where it says both handles are closed: when the close of the
  transport raises, final teardown ends without raising and without a close of the
  client.
\<close>

theorem teardown_skips_client_close_counterexample:
  "fst (finalize (scripted Transport_close_fails) s0 st0) = Inr ()
   \<and> added st0 (snd (finalize (scripted Transport_close_fails) s0 st0)) =
       [Log ''app'' INFO ''Closing the SFTP session and releasing resources.'',
        Ev_transport_close (TransportObj 0) (Inl (Exn ''OSError'' ''Socket is closed'')),
        Unraisable (Exn ''OSError'' ''Socket is closed'')]
   \<and> filter is_client_close (added st0 (snd (finalize (scripted Transport_close_fails) s0 st0))) = []
   \<and> \<not> closed_together (added st0 (snd (finalize (scripted Transport_close_fails) s0 st0)))"
  by (simp add: finalize_def SFTP_del_def invoke_def log_msg_def scripted_def s0_def st0_def
      added_def closed_together_def)

text \<open>
  C4, as amended. The handles of an object come from one successful run of \<^verbatim>\<open>auth\<close>
  for its configuration (a transport opened and connected, and the client derived from
  that transport): so it is after construction, and so it stays after every call and
  every sequence of calls. The two attributes are only assigned together: a call leaves
  the object as it was, or it is a \<^verbatim>\<open>reconnect\<close> whose \<^verbatim>\<open>auth\<close> succeeded, and then,
  whatever the closes did, \<^verbatim>\<open>reconnect\<close> returns and the object holds the pair of the
  run just made. In a \<^verbatim>\<open>reconnect\<close> whose close of the transport returns, the close of
  the client is called too.
\<close>

theorem handles_stay_paired:
  "(SFTP_init lib h u pw port_arg logger_arg st = (Inr s, st') \<longrightarrow>
      fresh_pair s (events st')
      \<and> paired (fst (run lib ops (s, st'))) (events (snd (run lib ops (s, st')))))
   \<and> (paired s1 (events st1) \<longrightarrow>
      paired (fst (step lib x (s1, st1))) (events (snd (step lib x (s1, st1)))))
   \<and> (fst (auth lib (p_logger s1) (p_configuration s1)
             (close_existing lib s1
               (log_msg (p_logger s1) INFO
                 ''Establishing a secure connection and authenticating with the SFTP server.'' st1)))
         = Inr (t, c) \<longrightarrow>
      fst (reconnect lib s1 st1) = Inr ()
      \<and> fst (snd (reconnect lib s1 st1)) = s1\<lparr>p_transport := t, sftp_client := c\<rparr>
      \<and> fresh_pair (fst (snd (reconnect lib s1 st1))) (events (snd (snd (reconnect lib s1 st1)))))
   \<and> (fst (step lib x (s1, st1)) = s1
      \<or> x = Reconnect
        \<and> fresh_pair (fst (step lib x (s1, st1))) (events (snd (step lib x (s1, st1)))))
   \<and> (transport_close lib (p_transport s1) (world st1) = (Inr v, w1) \<longrightarrow>
      closed_together (added st1 (snd (snd (reconnect lib s1 st1)))))"
proof (intro conjI impI)
  assume a: "SFTP_init lib h u pw port_arg logger_arg st = (Inr s, st')"
  from init_fresh [OF a] show f: "fresh_pair s (events st')" .
  from run_paired [of "(s, st')" lib ops] fresh_pair_paired [OF f]
  show "paired (fst (run lib ops (s, st'))) (events (snd (run lib ops (s, st'))))"
    by simp
next
  assume "paired s1 (events st1)"
  then show "paired (fst (step lib x (s1, st1))) (events (snd (step lib x (s1, st1))))"
    by (rule step_paired)
next
  assume a: "fst (auth lib (p_logger s1) (p_configuration s1)
             (close_existing lib s1
               (log_msg (p_logger s1) INFO
                 ''Establishing a secure connection and authenticating with the SFTP server.'' st1)))
         = Inr (t, c)"
  from reconnect_fresh [OF a]
  show "fst (reconnect lib s1 st1) = Inr ()"
    and "fst (snd (reconnect lib s1 st1)) = s1\<lparr>p_transport := t, sftp_client := c\<rparr>"
    and "fresh_pair (fst (snd (reconnect lib s1 st1))) (events (snd (snd (reconnect lib s1 st1))))"
    by simp_all
next
  let ?a = "fst (auth lib (p_logger s1) (p_configuration s1)
             (close_existing lib s1
               (log_msg (p_logger s1) INFO
                 ''Establishing a secure connection and authenticating with the SFTP server.'' st1)))"
  show "fst (step lib x (s1, st1)) = s1
      \<or> x = Reconnect
        \<and> fresh_pair (fst (step lib x (s1, st1))) (events (snd (step lib x (s1, st1))))"
  proof (cases "x = Reconnect")
    case False
    then show ?thesis by (simp add: step_session)
  next
    case True
    show ?thesis
    proof (cases ?a)
      case (Inl e)
      with True show ?thesis by (simp add: reconnect_session)
    next
      case (Inr p)
      then obtain t' c' where "?a = Inr (t', c')" by (cases p) simp
      from reconnect_fresh(3) [OF this] True show ?thesis by simp
    qed
  qed
next
  assume a: "transport_close lib (p_transport s1) (world st1) = (Inr v, w1)"
  obtain r w2 where b: "sftp_close lib (sftp_client s1) w1 = (r, w2)"
    by (cases "sftp_close lib (sftp_client s1) w1")
  from reconnect_events_transport_closes [OF a b]
  show "closed_together (added st1 (snd (snd (reconnect lib s1 st1))))"
    by (auto simp: closed_together_def)
qed

theorem handles_stay_paired_witness:
  "SFTP_init (scripted No_fault) ''sftp.example.org'' ''alice'' (Some ''s3cret'') None (Some ''app'')
     empty_sys = (Inr s0, st0)
   \<and> fresh_pair s0 (events st0)
   \<and> paired s0 (events st0)
   \<and> paired (fst (run (scripted No_fault) [List_dir None, Reconnect, Upload_file ''a'' ''b''] (s0, st0)))
        (events (snd (run (scripted No_fault) [List_dir None, Reconnect, Upload_file ''a'' ''b''] (s0, st0))))
   \<and> paired (fst (step (scripted Transport_close_fails) Reconnect (s0, st0)))
        (events (snd (step (scripted Transport_close_fails) Reconnect (s0, st0))))
   \<and> fst (reconnect (scripted Transport_close_fails) s0 st0) = Inr ()
   \<and> fst (snd (reconnect (scripted Transport_close_fails) s0 st0)) =
        s0\<lparr>p_transport := TransportObj 2, sftp_client := SFTPClientObj 3\<rparr>
   \<and> fresh_pair (fst (snd (reconnect (scripted Transport_close_fails) s0 st0)))
        (events (snd (snd (reconnect (scripted Transport_close_fails) s0 st0))))
   \<and> closed_together (added st0 (snd (snd (reconnect (scripted Client_close_fails) s0 st0))))"
proof -
  have h: "SFTP_init (scripted No_fault) ''sftp.example.org'' ''alice'' (Some ''s3cret'') None (Some ''app'')
     empty_sys = (Inr s0, st0)"
    by (simp add: SFTP_init_def auth_def invoke_def log_msg_def scripted_def arg_or_def
        empty_sys_def s0_def st0_def cfg0_def numeral_2_eq_2 Let_def)
  have p: "paired s0 (events st0)"
    by (simp add: paired_def auth_run_def connect_ok_def raised_of_def s0_def st0_def cfg0_def)
  have a: "fst (auth (scripted Transport_close_fails) (p_logger s0) (p_configuration s0)
             (close_existing (scripted Transport_close_fails) s0
               (log_msg (p_logger s0) INFO
                 ''Establishing a secure connection and authenticating with the SFTP server.'' st0)))
         = Inr (TransportObj 2, SFTPClientObj 3)"
    by (simp add: auth_def close_existing_def invoke_def log_msg_def scripted_def s0_def st0_def
        cfg0_def numeral_3_eq_3 numeral_2_eq_2)
  have c: "transport_close (scripted Client_close_fails) (p_transport s0) (world st0) = (Inr PyNone, 2)"
    by (simp add: scripted_def st0_def)
  note inst = handles_stay_paired [where ?s1.0 = s0 and ?st1.0 = st0 and h = "''sftp.example.org''"
      and u = "''alice''" and pw = "Some ''s3cret''" and port_arg = None and logger_arg = "Some ''app''"
      and st = empty_sys and s = s0 and st' = st0
      and ops = "[List_dir None, Reconnect, Upload_file ''a'' ''b'']" and x = Reconnect]
  from h inst [where lib = "scripted No_fault"]
  have 1: "fresh_pair s0 (events st0)
     \<and> paired (fst (run (scripted No_fault) [List_dir None, Reconnect, Upload_file ''a'' ''b''] (s0, st0)))
        (events (snd (run (scripted No_fault) [List_dir None, Reconnect, Upload_file ''a'' ''b''] (s0, st0))))"
    by blast
  from p a inst [where lib = "scripted Transport_close_fails" and t = "TransportObj 2"
      and c = "SFTPClientObj 3"]
  have 2: "paired (fst (step (scripted Transport_close_fails) Reconnect (s0, st0)))
        (events (snd (step (scripted Transport_close_fails) Reconnect (s0, st0))))
   \<and> fst (reconnect (scripted Transport_close_fails) s0 st0) = Inr ()
   \<and> fst (snd (reconnect (scripted Transport_close_fails) s0 st0)) =
        s0\<lparr>p_transport := TransportObj 2, sftp_client := SFTPClientObj 3\<rparr>
   \<and> fresh_pair (fst (snd (reconnect (scripted Transport_close_fails) s0 st0)))
        (events (snd (snd (reconnect (scripted Transport_close_fails) s0 st0))))"
    by blast
  from c inst [where lib = "scripted Client_close_fails" and v = PyNone and ?w1.0 = 2]
  have 3: "closed_together (added st0 (snd (snd (reconnect (scripted Client_close_fails) s0 st0))))"
    by blast
  from h p 1 2 3 show ?thesis by blast
qed

text \<open>
  C4 as stated fails where it says the handles are never destroyed one without the
  other: when the close of the transport raises in \<^verbatim>\<open>reconnect\<close>, both handles are
  replaced and only the transport had a close called on it.
\<close>

theorem reconnect_closes_transport_only_counterexample:
  "fst (reconnect (scripted Transport_close_fails) s0 st0) = Inr ()
   \<and> fst (snd (reconnect (scripted Transport_close_fails) s0 st0)) =
       s0\<lparr>p_transport := TransportObj 2, sftp_client := SFTPClientObj 3\<rparr>
   \<and> filter is_transport_close (added st0 (snd (snd (reconnect (scripted Transport_close_fails) s0 st0)))) =
       [Ev_transport_close (TransportObj 0) (Inl (Exn ''OSError'' ''Socket is closed''))]
   \<and> filter is_client_close (added st0 (snd (snd (reconnect (scripted Transport_close_fails) s0 st0)))) = []
   \<and> \<not> closed_together (added st0 (snd (snd (reconnect (scripted Transport_close_fails) s0 st0))))"
  by (simp add: reconnect_def close_existing_def auth_def invoke_def log_msg_def scripted_def
      s0_def st0_def cfg0_def added_def closed_together_def numeral_3_eq_3 numeral_2_eq_2)

end
